theory Spec2Isabelle
  imports Complex_Main "HOL-Library.AList" "HOL-Library.Log_Nat"
begin

section \<open>Values of the source dataset\<close>

text \<open>
  \<^verbatim>\<open>scripts/convert_catalog.py\<close> reads one JSON document with \<^verbatim>\<open>json.load\<close> and
  transforms it in memory. The values it handles are the Python values \<^verbatim>\<open>json.load\<close>
  produces: \<^verbatim>\<open>None\<close>, \<^verbatim>\<open>bool\<close>, \<^verbatim>\<open>int\<close>, \<^verbatim>\<open>float\<close>, \<^verbatim>\<open>str\<close>, \<^verbatim>\<open>list\<close> and
  \<^verbatim>\<open>dict\<close>. A \<^verbatim>\<open>dict\<close> is the list of its items in insertion order (the order
  \<^verbatim>\<open>raw.items()\<close> iterates in); a lookup reads it with \<open>map_of\<close>.

  A \<^verbatim>\<open>float\<close> is an IEEE binary64 number. A finite one is represented by the rational
  number it denotes, the two infinities and NaN by constructors of their own. The sign
  of a zero is not represented (no operation of the script reads it). A \<^verbatim>\<open>str\<close> is a
  \<open>string\<close>, one \<open>char\<close> per code point (code points below 256).
\<close>

datatype pyfloat = Finite rat | PosInf | NegInf | NaN

datatype json =
    JNull
  | JBool bool
  | JInt int
  | JFloat pyfloat
  | JStr string
  | JArr "json list"
  | JObj "(string \<times> json) list"

text \<open>The exceptions the script can raise while it transforms the loaded document.\<close>

datatype pyerror = TypeError | ValueError | OverflowError

text \<open>Sequencing of two steps of which the first may raise.\<close>

definition ebind :: "pyerror + 'a \<Rightarrow> ('a \<Rightarrow> pyerror + 'b) \<Rightarrow> pyerror + 'b" where
  "ebind m f = (case m of Inl e \<Rightarrow> Inl e | Inr x \<Rightarrow> f x)"

section \<open>Python built-ins the script uses\<close>

subsection \<open>Dictionary reads, truth values, \<^verbatim>\<open>or\<close>\<close>

text \<open>\<^verbatim>\<open>v.get(k)\<close>: the value under \<open>k\<close>, \<^verbatim>\<open>None\<close> when the key is missing.\<close>

definition get :: "(string \<times> json) list \<Rightarrow> string \<Rightarrow> json" where
  "get v k = (case map_of v k of None \<Rightarrow> JNull | Some x \<Rightarrow> x)"

text \<open>\<^verbatim>\<open>v.get(k, d)\<close>: the default only replaces a missing key, not a stored \<^verbatim>\<open>null\<close>.\<close>

definition get_default :: "(string \<times> json) list \<Rightarrow> string \<Rightarrow> json \<Rightarrow> json" where
  "get_default v k d = (case map_of v k of None \<Rightarrow> d | Some x \<Rightarrow> x)"

text \<open>\<^verbatim>\<open>bool(x)\<close>: \<^verbatim>\<open>None\<close>, \<^verbatim>\<open>False\<close>, zero and the empty string, list and dict are false.\<close>

fun truthy :: "json \<Rightarrow> bool" where
  "truthy JNull = False"
| "truthy (JBool b) = b"
| "truthy (JInt i) = (i \<noteq> 0)"
| "truthy (JFloat f) = (f \<noteq> Finite 0)"
| "truthy (JStr s) = (s \<noteq> [])"
| "truthy (JArr xs) = (xs \<noteq> [])"
| "truthy (JObj kvs) = (kvs \<noteq> [])"

text \<open>\<^verbatim>\<open>a or b\<close>: \<open>a\<close> when it is true, else \<open>b\<close>.\<close>

definition py_or :: "json \<Rightarrow> json \<Rightarrow> json" where
  "py_or a b = (if truthy a then a else b)"

subsection \<open>Floating-point arithmetic\<close>

text \<open>
  Rounding of a rational to the nearest integer, ties to the even one: the rule of
  IEEE round-to-nearest and of the decimal rounding inside \<^verbatim>\<open>round\<close>.
\<close>

definition round_half_even :: "rat \<Rightarrow> int" where
  "round_half_even x =
     (let f = \<lfloor>x\<rfloor>; d = x - of_int f
      in if d < 1 / 2 then f else if 1 / 2 < d then f + 1
         else if even f then f else f + 1)"

definition pow2 :: "int \<Rightarrow> rat" where
  "pow2 e = (if 0 \<le> e then 2 ^ nat e else 1 / 2 ^ nat (- e))"

text \<open>\<open>floor_log2 q\<close> is the \<open>e\<close> with \<open>2^e \<le> q < 2^(e+1)\<close>, for a positive \<open>q\<close>.\<close>

definition floor_log2 :: "rat \<Rightarrow> int" where
  "floor_log2 q =
     (if 1 \<le> q then bitlen \<lfloor>q\<rfloor> - 1 else - bitlen (\<lceil>1 / q\<rceil> - 1))"

text \<open>
  The binary64 number nearest to a rational (ties to even): 53 significant bits, the
  smallest exponent of the last bit is \<open>-1074\<close> (subnormal numbers), and a result of
  magnitude \<open>2^1024\<close> or more is an infinity.
\<close>

definition to_double :: "rat \<Rightarrow> pyfloat" where
  "to_double q =
     (if q = 0 then Finite 0
      else let u = max (- 1074) (floor_log2 \<bar>q\<bar> - 52);
               r = of_int (round_half_even (\<bar>q\<bar> / pow2 u)) * pow2 u
           in if pow2 1024 \<le> r then (if 0 < q then PosInf else NegInf)
              else Finite (if 0 < q then r else - r))"

text \<open>\<^verbatim>\<open>x * n\<close> for a float \<open>x\<close> and an int \<open>n\<close> small enough to be a float exactly.\<close>

fun float_mul_int :: "pyfloat \<Rightarrow> int \<Rightarrow> pyfloat" where
  "float_mul_int (Finite x) n = to_double (x * of_int n)"
| "float_mul_int PosInf n = (if 0 < n then PosInf else if n < 0 then NegInf else NaN)"
| "float_mul_int NegInf n = (if 0 < n then NegInf else if n < 0 then PosInf else NaN)"
| "float_mul_int NaN n = NaN"

text \<open>
  \<^verbatim>\<open>round(x, nd)\<close> for a float and a small \<open>nd \<ge> 0\<close>: infinities and NaN round to
  themselves; a finite \<open>x\<close> is rounded, as the exact number it is, to \<open>nd\<close> decimals
  (ties to even) and the decimal result is converted back to the nearest float;
  \<^verbatim>\<open>OverflowError\<close> when that is not finite.
\<close>

fun float_round :: "pyfloat \<Rightarrow> nat \<Rightarrow> pyerror + pyfloat" where
  "float_round (Finite x) nd =
     (case to_double (of_int (round_half_even (x * 10 ^ nd)) / 10 ^ nd) of
        Finite r \<Rightarrow> Inr (Finite r)
      | _ \<Rightarrow> Inl OverflowError)"
| "float_round f nd = Inr f"

subsection \<open>Arithmetic on loaded values, \<^verbatim>\<open>round\<close>, \<^verbatim>\<open>int\<close>\<close>

definition bool_int :: "bool \<Rightarrow> int" where
  "bool_int b = (if b then 1 else 0)"

text \<open>
  \<^verbatim>\<open>x * n\<close> for a loaded value and an int literal: numbers multiply (a \<^verbatim>\<open>bool\<close> is an
  int), a string or a list is repeated, \<^verbatim>\<open>None\<close> and a dict raise.
\<close>

fun py_mul_int :: "json \<Rightarrow> int \<Rightarrow> pyerror + json" where
  "py_mul_int JNull n = Inl TypeError"
| "py_mul_int (JBool b) n = Inr (JInt (bool_int b * n))"
| "py_mul_int (JInt i) n = Inr (JInt (i * n))"
| "py_mul_int (JFloat f) n = Inr (JFloat (float_mul_int f n))"
| "py_mul_int (JStr s) n = Inr (JStr (concat (replicate (nat n) s)))"
| "py_mul_int (JArr xs) n = Inr (JArr (concat (replicate (nat n) xs)))"
| "py_mul_int (JObj kvs) n = Inl TypeError"

text \<open>
  \<^verbatim>\<open>round(x, nd)\<close> with \<open>nd \<ge> 0\<close>: an int is returned as it is, a float is rounded,
  anything else has no \<^verbatim>\<open>__round__\<close>.
\<close>

fun py_round :: "json \<Rightarrow> nat \<Rightarrow> pyerror + json" where
  "py_round (JBool b) nd = Inr (JInt (bool_int b))"
| "py_round (JInt i) nd = Inr (JInt i)"
| "py_round (JFloat f) nd = ebind (float_round f nd) (\<lambda>r. Inr (JFloat r))"
| "py_round x nd = Inl TypeError"

text \<open>
  \<^verbatim>\<open>int(s)\<close> for a string: surrounding whitespace is dropped; then an optional sign and
  decimal digits, single underscores allowed between digits. (The interpreter's limit
  on the number of digits of such a string is not modelled.)
\<close>

definition is_space :: "char \<Rightarrow> bool" where
  "is_space c = ((of_char c :: nat) \<in> {9, 10, 11, 12, 13, 32, 133, 160})"

definition is_digit :: "char \<Rightarrow> bool" where
  "is_digit c = (48 \<le> (of_char c :: nat) \<and> (of_char c :: nat) \<le> 57)"

definition digit_val :: "char \<Rightarrow> int" where
  "digit_val c = int (of_char c) - 48"

fun digits_value :: "string \<Rightarrow> int \<Rightarrow> int option" where
  "digits_value [] acc = Some acc"
| "digits_value [c] acc = (if is_digit c then Some (10 * acc + digit_val c) else None)"
| "digits_value (c # d # ds) acc =
     (if is_digit c then digits_value (d # ds) (10 * acc + digit_val c)
      else if c = CHR ''_'' \<and> is_digit d then digits_value ds (10 * acc + digit_val d)
      else None)"

definition strip :: "string \<Rightarrow> string" where
  "strip s = rev (dropWhile is_space (rev (dropWhile is_space s)))"

definition unsigned_int_of_str :: "string \<Rightarrow> pyerror + int" where
  "unsigned_int_of_str u =
     (case u of
        [] \<Rightarrow> Inl ValueError
      | d # ds \<Rightarrow>
          if is_digit d
          then (case digits_value ds (digit_val d) of
                  None \<Rightarrow> Inl ValueError
                | Some n \<Rightarrow> Inr n)
          else Inl ValueError)"

definition int_of_str :: "string \<Rightarrow> pyerror + int" where
  "int_of_str s =
     (case strip s of
        [] \<Rightarrow> Inl ValueError
      | c # cs \<Rightarrow>
          if c = CHR ''-'' then ebind (unsigned_int_of_str cs) (\<lambda>n. Inr (- n))
          else if c = CHR ''+'' then unsigned_int_of_str cs
          else unsigned_int_of_str (c # cs))"

text \<open>\<^verbatim>\<open>int(x)\<close>: a float is truncated towards zero; NaN and the infinities raise.\<close>

fun py_int :: "json \<Rightarrow> pyerror + int" where
  "py_int JNull = Inl TypeError"
| "py_int (JBool b) = Inr (bool_int b)"
| "py_int (JInt i) = Inr i"
| "py_int (JFloat (Finite x)) = Inr (if 0 \<le> x then \<lfloor>x\<rfloor> else \<lceil>x\<rceil>)"
| "py_int (JFloat NaN) = Inl ValueError"
| "py_int (JFloat f) = Inl OverflowError"
| "py_int (JStr s) = int_of_str s"
| "py_int (JArr xs) = Inl TypeError"
| "py_int (JObj kvs) = Inl TypeError"

text \<open>\<^verbatim>\<open>s.startswith(p)\<close> and \<^verbatim>\<open>x is not None\<close>.\<close>

definition startswith :: "string \<Rightarrow> string \<Rightarrow> bool" where
  "startswith s p = (take (length p) s = p)"

definition is_not_none :: "json \<Rightarrow> bool" where
  "is_not_none x = (x \<noteq> JNull)"

section \<open>The converter\<close>

subsection \<open>Static tables\<close>

definition MODE_MAP :: "(string \<times> string) list" where
  "MODE_MAP =
     [(''chat'', ''chat''),
      (''completion'', ''chat''),
      (''embedding'', ''embedding''),
      (''image_generation'', ''image''),
      (''audio_transcription'', ''audio_in''),
      (''audio_speech'', ''audio_out'')]"

definition SKIP_MODES :: "string list" where
  "SKIP_MODES = [''moderation'', ''rerank'', ''search'']"

definition PROVIDER_ALIASES :: "(string \<times> string) list" where
  "PROVIDER_ALIASES =
     [(''text-completion-openai'', ''openai''),
      (''chatgpt'', ''openai''),
      (''openai_like'', ''openai''),
      (''openai_compatible'', ''openai''),
      (''cohere_chat'', ''cohere''),
      (''codestral'', ''mistral''),
      (''text-completion-codestral'', ''mistral''),
      (''mistral_azure'', ''azure''),
      (''together_ai'', ''together''),
      (''fireworks_ai'', ''fireworks''),
      (''fireworks_ai-embedding-models'', ''fireworks''),
      (''bedrock_converse'', ''bedrock''),
      (''bedrock_converse_passthrough'', ''bedrock''),
      (''sagemaker_chat'', ''sagemaker''),
      (''sagemaker_meta'', ''sagemaker''),
      (''vertex_ai_beta'', ''vertex_ai''),
      (''vertex_ai-anthropic_models'', ''vertex_ai''),
      (''vertex_ai-llama_models'', ''vertex_ai''),
      (''vertex_ai-mistral_models'', ''vertex_ai''),
      (''vertex_ai-image-models'', ''vertex_ai''),
      (''vertex_ai-embedding-models'', ''vertex_ai''),
      (''vertex_ai-vision-models'', ''vertex_ai''),
      (''vertex_ai-code-text-models'', ''vertex_ai''),
      (''vertex_ai-language-models'', ''vertex_ai''),
      (''vertex_ai-text-models'', ''vertex_ai''),
      (''vertex_ai-chat-models'', ''vertex_ai''),
      (''vertex_ai-code-chat-models'', ''vertex_ai''),
      (''azure_ai'', ''azure''),
      (''azure_text'', ''azure''),
      (''azure_openai'', ''azure''),
      (''eu.anthropic'', ''anthropic''),
      (''us.anthropic'', ''anthropic''),
      (''us.amazon'', ''bedrock''),
      (''eu.amazon'', ''bedrock''),
      (''ap.amazon'', ''bedrock''),
      (''us.meta'', ''bedrock''),
      (''eu.meta'', ''bedrock''),
      (''ollama_chat'', ''ollama''),
      (''ai21_chat'', ''ai21'')]"

subsection \<open>\<^verbatim>\<open>canonical_provider\<close>, \<^verbatim>\<open>derive_model_id\<close>, \<^verbatim>\<open>per_m\<close>\<close>

definition canonical_provider :: "string \<Rightarrow> string" where
  "canonical_provider litellm_provider =
     (case map_of PROVIDER_ALIASES litellm_provider of
        None \<Rightarrow> litellm_provider
      | Some c \<Rightarrow> c)"

text \<open>
  The loop over the two prefixes \<^verbatim>\<open>(litellm_provider + "/", canon + "/")\<close> returns at
  the first one the key starts with.
\<close>

fun strip_first_prefix :: "string \<Rightarrow> string list \<Rightarrow> string" where
  "strip_first_prefix litellm_key [] = litellm_key"
| "strip_first_prefix litellm_key (prefix # rest) =
     (if startswith litellm_key prefix then drop (length prefix) litellm_key
      else strip_first_prefix litellm_key rest)"

definition derive_model_id :: "string \<Rightarrow> string \<Rightarrow> string" where
  "derive_model_id litellm_key litellm_provider =
     (let canon = canonical_provider litellm_provider
      in strip_first_prefix litellm_key [litellm_provider @ ''/'', canon @ ''/''])"

definition per_m :: "json \<Rightarrow> pyerror + json" where
  "per_m cost_per_token =
     (if cost_per_token = JNull then Inr JNull
      else ebind (py_mul_int cost_per_token 1000000) (\<lambda>x. py_round x 10))"

subsection \<open>The catalog entry\<close>

record pricing_rec =
  input_per_m_tokens :: json
  output_per_m_tokens :: json
  cache_read_per_m_tokens :: json
  cache_write_per_m_tokens :: json
  reasoning_per_m_tokens :: json
  image_per_tile :: json
  audio_input_per_minute :: json
  audio_output_per_character :: json
  embedding_per_m_tokens :: json
  finetune_train_per_m_tokens :: json
  finetune_input_per_m_tokens :: json
  finetune_output_per_m_tokens :: json

record caps_rec =
  vision :: bool
  audio_input :: bool
  audio_output :: bool
  function_calling :: bool
  parallel_tool_calls :: bool
  json_mode :: bool
  response_schema :: bool
  prompt_caching :: bool
  reasoning :: bool
  streaming :: bool
  finetuneable :: bool

record lifecycle_rec =
  status :: string
  deprecation_date :: json
  sunset_date :: json
  successor :: json

record entry =
  provider :: string
  model_id :: string
  display_name :: json
  mode :: string
  context_window :: int
  max_output_tokens :: int
  pricing :: pricing_rec
  capabilities :: caps_rec
  lifecycle :: lifecycle_rec
  source :: json
  updated_at :: string

subsection \<open>\<^verbatim>\<open>convert_entry\<close>\<close>

text \<open>
  \<^verbatim>\<open>raw_mode in SKIP_MODES\<close> hashes \<open>raw_mode\<close>: a list or a dict raises. Only a string
  can be a member of the set or a key of \<^verbatim>\<open>MODE_MAP\<close>.
\<close>

definition in_skip_modes :: "json \<Rightarrow> pyerror + bool" where
  "in_skip_modes raw_mode =
     (case raw_mode of
        JStr s \<Rightarrow> Inr (s \<in> set SKIP_MODES)
      | JArr xs \<Rightarrow> Inl TypeError
      | JObj kvs \<Rightarrow> Inl TypeError
      | _ \<Rightarrow> Inr False)"

definition mode_map_get :: "json \<Rightarrow> string" where
  "mode_map_get raw_mode =
     (case raw_mode of
        JStr s \<Rightarrow> (case map_of MODE_MAP s of None \<Rightarrow> ''chat'' | Some m \<Rightarrow> m)
      | _ \<Rightarrow> ''chat'')"

text \<open>
  \<^verbatim>\<open>derive_model_id(litellm_key, v.get("litellm_provider", ""))\<close>: the function is written
  for a string; any other value raises, in the alias lookup (a list, a dict) or at
  \<^verbatim>\<open>litellm_provider + "/"\<close>.
\<close>

definition derive_model_id_of :: "string \<Rightarrow> json \<Rightarrow> pyerror + string" where
  "derive_model_id_of litellm_key p =
     (case p of
        JStr s \<Rightarrow> Inr (derive_model_id litellm_key s)
      | _ \<Rightarrow> Inl TypeError)"

text \<open>The pricing dict of an embedding-mode entry.\<close>

definition embedding_pricing :: "(string \<times> json) list \<Rightarrow> pyerror + pricing_rec" where
  "embedding_pricing v =
     ebind (per_m (get v ''input_cost_per_token'')) (\<lambda>emb.
     Inr \<lparr>input_per_m_tokens = JNull, output_per_m_tokens = JNull,
          cache_read_per_m_tokens = JNull, cache_write_per_m_tokens = JNull,
          reasoning_per_m_tokens = JNull, image_per_tile = JNull,
          audio_input_per_minute = JNull, audio_output_per_character = JNull,
          embedding_per_m_tokens = emb,
          finetune_train_per_m_tokens = JNull,
          finetune_input_per_m_tokens = JNull,
          finetune_output_per_m_tokens = JNull\<rparr>)"

text \<open>\<^verbatim>\<open>audio_in_per_min\<close> of the other branch.\<close>

definition audio_in_per_min :: "(string \<times> json) list \<Rightarrow> pyerror + json" where
  "audio_in_per_min v =
     (if is_not_none (get v ''input_cost_per_second'')
      then ebind (py_mul_int (get v ''input_cost_per_second'') 60) (\<lambda>x. py_round x 10)
      else if is_not_none (get v ''input_cost_per_audio_per_second'')
      then ebind (py_mul_int (get v ''input_cost_per_audio_per_second'') 60)
             (\<lambda>x. py_round x 10)
      else Inr JNull)"

text \<open>The pricing dict of every other entry; the values are computed in the order written.\<close>

definition general_pricing :: "(string \<times> json) list \<Rightarrow> pyerror + pricing_rec" where
  "general_pricing v =
     ebind (audio_in_per_min v) (\<lambda>audio.
     ebind (per_m (get v ''input_cost_per_token'')) (\<lambda>inp.
     ebind (per_m (get v ''output_cost_per_token'')) (\<lambda>outp.
     ebind (per_m (get v ''cache_read_input_token_cost'')) (\<lambda>cread.
     ebind (per_m (get v ''cache_creation_input_token_cost'')) (\<lambda>cwrite.
     ebind (per_m (get v ''input_cost_per_reasoning_token'')) (\<lambda>reas.
     ebind (per_m (get v ''ft_input_cost_per_token'')) (\<lambda>ft_train.
     ebind (per_m (get v ''ft_input_cost_per_token'')) (\<lambda>ft_in.
     ebind (per_m (get v ''ft_output_cost_per_token'')) (\<lambda>ft_out.
     Inr \<lparr>input_per_m_tokens = inp, output_per_m_tokens = outp,
          cache_read_per_m_tokens = cread, cache_write_per_m_tokens = cwrite,
          reasoning_per_m_tokens = reas,
          image_per_tile = get v ''output_cost_per_image'',
          audio_input_per_minute = audio,
          audio_output_per_character = get v ''output_cost_per_character'',
          embedding_per_m_tokens = JNull,
          finetune_train_per_m_tokens = ft_train,
          finetune_input_per_m_tokens = ft_in,
          finetune_output_per_m_tokens = ft_out\<rparr>)))))))))"

definition convert_caps :: "(string \<times> json) list \<Rightarrow> caps_rec" where
  "convert_caps v =
     \<lparr>vision = truthy (get v ''supports_vision''),
      audio_input = truthy (get v ''supports_audio_input''),
      audio_output = truthy (get v ''supports_audio_output''),
      function_calling = truthy (get v ''supports_function_calling''),
      parallel_tool_calls = truthy (get v ''supports_parallel_function_calling''),
      json_mode = truthy (get v ''supports_function_calling''),
      response_schema = truthy (get v ''supports_response_schema''),
      prompt_caching = truthy (get v ''supports_prompt_caching''),
      reasoning = truthy (py_or (get v ''supports_reasoning'')
                                (get v ''input_cost_per_reasoning_token'')),
      streaming = True,
      finetuneable = truthy (py_or (get v ''ft_input_cost_per_token'')
                                   (get v ''ft_output_cost_per_token''))\<rparr>"

definition convert_lifecycle :: "(string \<times> json) list \<Rightarrow> lifecycle_rec" where
  "convert_lifecycle v =
     \<lparr>status = (if truthy (get v ''deprecation_date'') then ''deprecated'' else ''ga''),
      deprecation_date = get v ''deprecation_date'',
      sunset_date = JNull,
      successor = JNull\<rparr>"

text \<open>\<open>Inr None\<close> is the \<^verbatim>\<open>return None\<close> of a skipped mode.\<close>

definition convert_entry ::
  "string \<Rightarrow> (string \<times> json) list \<Rightarrow> string \<Rightarrow> pyerror + entry option" where
  "convert_entry litellm_key v provider0 =
     ebind (in_skip_modes (get v ''mode'')) (\<lambda>skip.
     if skip then Inr None
     else
       let mode0 = mode_map_get (get v ''mode'') in
       ebind (derive_model_id_of litellm_key
                (get_default v ''litellm_provider'' (JStr ''''))) (\<lambda>model_id0.
       ebind (if mode0 = ''embedding'' then embedding_pricing v
              else general_pricing v) (\<lambda>pricing0.
       ebind (py_int (py_or (get v ''max_input_tokens'') (JInt 0))) (\<lambda>cw.
       ebind (py_int (py_or (get v ''max_output_tokens'') (JInt 0))) (\<lambda>mo.
       Inr (Some
         \<lparr>provider = provider0,
          model_id = model_id0,
          display_name = py_or (get v ''display_name'') (JStr model_id0),
          mode = mode0,
          context_window = cw,
          max_output_tokens = mo,
          pricing = pricing0,
          capabilities = convert_caps v,
          lifecycle = convert_lifecycle v,
          source = py_or (get v ''source'') (JStr ''''),
          updated_at = ''2026-02-28''\<rparr>))))))"

subsection \<open>\<^verbatim>\<open>has_pricing\<close>\<close>

definition has_pricing :: "entry \<Rightarrow> bool" where
  "has_pricing e =
     (let p = pricing e
      in is_not_none (input_per_m_tokens p) \<or> is_not_none (output_per_m_tokens p)
         \<or> is_not_none (embedding_per_m_tokens p) \<or> is_not_none (image_per_tile p)
         \<or> is_not_none (audio_input_per_minute p)
         \<or> is_not_none (audio_output_per_character p))"

subsection \<open>The loop of \<^verbatim>\<open>main\<close>\<close>

text \<open>
  The state the loop updates: the catalog (a dict, in insertion order) and the five
  counters. Reading the input file and writing the two output files are outside the
  model; \<open>main_run\<close> is the pass from the loaded document to the catalog and counters
  that are then written and reported.
\<close>

record state =
  catalog :: "(string \<times> entry) list"
  skipped_spec :: nat
  skipped_mode :: nat
  skipped_no_provider :: nat
  duplicates :: nat
  written :: nat

definition init_state :: state where
  "init_state =
     \<lparr>catalog = [], skipped_spec = 0, skipped_mode = 0, skipped_no_provider = 0,
      duplicates = 0, written = 0\<rparr>"

text \<open>The last part of the loop body: the entry goes into the catalog under its key.\<close>

definition store_entry :: "string \<Rightarrow> entry \<Rightarrow> state \<Rightarrow> state" where
  "store_entry catalog_key e s =
     (case map_of (catalog s) catalog_key of
        Some old \<Rightarrow>
          (let s1 = s\<lparr>duplicates := duplicates s + 1\<rparr>
           in if has_pricing e \<and> \<not> has_pricing old
              then s1\<lparr>catalog := AList.update catalog_key e (catalog s1)\<rparr>
              else s1)
      | None \<Rightarrow>
          s\<lparr>catalog := AList.update catalog_key e (catalog s),
            written := written s + 1\<rparr>)"

text \<open>
  One iteration. \<^verbatim>\<open>litellm_provider = v.get("litellm_provider") or ""\<close> is any true
  value here. \<^verbatim>\<open>canonical_provider\<close> looks it up in the alias table: a list or a dict
  raises, a string is resolved, and any other value (a number, \<^verbatim>\<open>True\<close>) is no key of
  the table and comes back unchanged. With such a provider \<^verbatim>\<open>convert_entry\<close> returns
  \<^verbatim>\<open>None\<close> for a skipped mode and otherwise raises in \<^verbatim>\<open>derive_model_id\<close>, which
  reads the same value from \<open>v\<close>.
\<close>

definition main_step :: "string \<times> json \<Rightarrow> state \<Rightarrow> pyerror + state" where
  "main_step kv s =
     (let litellm_key = fst kv in
      if litellm_key = ''sample_spec'' then Inr (s\<lparr>skipped_spec := skipped_spec s + 1\<rparr>)
      else case snd kv of
        JObj v \<Rightarrow>
          (let litellm_provider = py_or (get v ''litellm_provider'') (JStr '''') in
           if \<not> truthy litellm_provider
           then Inr (s\<lparr>skipped_no_provider := skipped_no_provider s + 1\<rparr>)
           else case litellm_provider of
             JStr lp \<Rightarrow>
               (let provider0 = canonical_provider lp in
                ebind (convert_entry litellm_key v provider0) (\<lambda>r.
                case r of
                  None \<Rightarrow> Inr (s\<lparr>skipped_mode := skipped_mode s + 1\<rparr>)
                | Some e \<Rightarrow> Inr (store_entry (provider0 @ ''/'' @ model_id e) e s)))
           | JArr xs \<Rightarrow> Inl TypeError
           | JObj kvs \<Rightarrow> Inl TypeError
           | _ \<Rightarrow>
               ebind (in_skip_modes (get v ''mode'')) (\<lambda>skip.
               if skip then Inr (s\<lparr>skipped_mode := skipped_mode s + 1\<rparr>)
               else Inl TypeError))
      | _ \<Rightarrow> Inr s)"

fun main_loop :: "(string \<times> json) list \<Rightarrow> state \<Rightarrow> pyerror + state" where
  "main_loop [] s = Inr s"
| "main_loop (kv # rest) s = ebind (main_step kv s) (main_loop rest)"

definition main_run :: "(string \<times> json) list \<Rightarrow> pyerror + state" where
  "main_run raw = main_loop raw init_state"

section \<open>Sample entries\<close>

text \<open>
  The entry \<^verbatim>\<open>convert_entry\<close> builds from an attribute mapping that holds nothing but a
  provider tag and a chat mode; the samples below differ from it in a few fields.
\<close>

definition null_pricing :: pricing_rec where
  "null_pricing =
     \<lparr>input_per_m_tokens = JNull, output_per_m_tokens = JNull,
      cache_read_per_m_tokens = JNull, cache_write_per_m_tokens = JNull,
      reasoning_per_m_tokens = JNull, image_per_tile = JNull,
      audio_input_per_minute = JNull, audio_output_per_character = JNull,
      embedding_per_m_tokens = JNull, finetune_train_per_m_tokens = JNull,
      finetune_input_per_m_tokens = JNull, finetune_output_per_m_tokens = JNull\<rparr>"

definition no_caps :: caps_rec where
  "no_caps =
     \<lparr>vision = False, audio_input = False, audio_output = False,
      function_calling = False, parallel_tool_calls = False, json_mode = False,
      response_schema = False, prompt_caching = False, reasoning = False,
      streaming = True, finetuneable = False\<rparr>"

definition plain_entry :: "string \<Rightarrow> string \<Rightarrow> entry" where
  "plain_entry p m =
     \<lparr>provider = p, model_id = m, display_name = JStr m, mode = ''chat'',
      context_window = 0, max_output_tokens = 0, pricing = null_pricing,
      capabilities = no_caps,
      lifecycle = \<lparr>status = ''ga'', deprecation_date = JNull, sunset_date = JNull,
                   successor = JNull\<rparr>,
      source = JStr '''', updated_at = ''2026-02-28''\<rparr>"

text \<open>A chat model of provider \<open>openai\<close> with the given further attributes.\<close>

definition openai_chat :: "(string \<times> json) list \<Rightarrow> (string \<times> json) list" where
  "openai_chat attrs = (''litellm_provider'', JStr ''openai'') # (''mode'', JStr ''chat'') # attrs"

definition openai_embedding :: "(string \<times> json) list \<Rightarrow> (string \<times> json) list" where
  "openai_embedding attrs =
     (''litellm_provider'', JStr ''openai'') # (''mode'', JStr ''embedding'') # attrs"

definition priced :: "entry \<Rightarrow> pricing_rec \<Rightarrow> entry" where
  "priced e pr = e\<lparr>pricing := pr\<rparr>"

text \<open>
  Two source entries that map to the catalog key \<open>openai/foo\<close>: the composite key
  \<open>openai/foo\<close> and the bare key \<open>foo\<close>, both of provider \<open>openai\<close>.
\<close>

definition foo_twice ::
  "(string \<times> json) list \<Rightarrow> (string \<times> json) list \<Rightarrow> (string \<times> json) list" where
  "foo_twice attrs1 attrs2 =
     [(''openai/foo'', JObj (openai_chat attrs1)), (''foo'', JObj (openai_chat attrs2))]"

text \<open>The document of the example scenario; \<open>0.00003\<close> is read as the nearest float.\<close>

definition gpt4_foo :: "(string \<times> json) list" where
  "gpt4_foo =
     [(''gpt-4/foo'',
       JObj [(''litellm_provider'', JStr ''openai''), (''mode'', JStr ''chat''),
             (''input_cost_per_token'', JFloat (to_double (3 / 100000)))])]"

section \<open>The conversions in the words of the specification\<close>

text \<open>
  A per-token cost \<open>c\<close> converts to the rate \<open>r\<close>: a null cost to a null rate, a present
  one to \<^verbatim>\<open>round(c * 1_000_000, 10)\<close>.
\<close>

definition per_m_rate :: "json \<Rightarrow> json \<Rightarrow> bool" where
  "per_m_rate c r =
     (if c = JNull then r = JNull
      else ebind (py_mul_int c 1000000) (\<lambda>x. py_round x 10) = Inr r)"

text \<open>
  A cost per second \<open>c\<close> converts to the rate per minute \<open>r\<close>: \<^verbatim>\<open>round(c * 60, 10)\<close>.
\<close>

definition per_minute_rate :: "json \<Rightarrow> json \<Rightarrow> bool" where
  "per_minute_rate c r = (ebind (py_mul_int c 60) (\<lambda>x. py_round x 10) = Inr r)"

text \<open>
  The audio-input rate \<open>r\<close> of an attribute mapping: converted from the first present of
  \<^verbatim>\<open>input_cost_per_second\<close> and \<^verbatim>\<open>input_cost_per_audio_per_second\<close>, null when both
  are absent.
\<close>

definition audio_rate :: "(string \<times> json) list \<Rightarrow> json \<Rightarrow> bool" where
  "audio_rate v r =
     (if get v ''input_cost_per_second'' \<noteq> JNull
      then per_minute_rate (get v ''input_cost_per_second'') r
      else if get v ''input_cost_per_audio_per_second'' \<noteq> JNull
      then per_minute_rate (get v ''input_cost_per_audio_per_second'') r
      else r = JNull)"

section \<open>Auxiliary facts\<close>

lemma floor_rat_numeral_div:
  "\<lfloor>(numeral a :: rat) / numeral b\<rfloor> = numeral a div numeral b"
  using floor_divide_of_int_eq [of "numeral a" "numeral b", where ?'a = rat] by simp

lemma ceiling_rat_numeral_div:
  "\<lceil>(numeral a :: rat) / numeral b\<rceil> = - (- numeral a div numeral b)"
  using floor_divide_of_int_eq [of "- numeral a" "numeral b", where ?'a = rat]
  by (simp add: ceiling_def)

text \<open>The equations that evaluate the float operations on numerals.\<close>

lemmas float_eval =
  to_double_def floor_log2_def bitlen_def compute_floorlog round_half_even_def pow2_def
  Let_def floor_rat_numeral_div ceiling_rat_numeral_div

text \<open>The float nearest to one tenth, as a check of \<open>to_double\<close>.\<close>

lemma to_double_one_tenth:
  "to_double (1 / 10) = Finite (3602879701896397 / 36028797018963968)"
  by (simp add: float_eval)

lemma startswith_iff: "startswith s p \<longleftrightarrow> (\<exists>r. s = p @ r)"
  unfolding startswith_def by (metis append_eq_conv_conj append_take_drop_id)

lemma ebind_Inl: "ebind (Inl e) f = Inl e"
  by (simp add: ebind_def)

lemma ebind_Inr: "ebind (Inr x) f = f x"
  by (simp add: ebind_def)

lemma ebind_eq_Inr: "ebind m f = Inr y \<longleftrightarrow> (\<exists>x. m = Inr x \<and> f x = Inr y)"
  by (cases m) (simp_all add: ebind_def)

text \<open>What a successful conversion consists of.\<close>

lemma convert_entry_Some:
  assumes "convert_entry k v p = Inr (Some e)"
  shows "\<exists>mid pr cw mo.
     in_skip_modes (get v ''mode'') = Inr False
   \<and> derive_model_id_of k (get_default v ''litellm_provider'' (JStr '''')) = Inr mid
   \<and> (if mode_map_get (get v ''mode'') = ''embedding'' then embedding_pricing v
       else general_pricing v) = Inr pr
   \<and> py_int (py_or (get v ''max_input_tokens'') (JInt 0)) = Inr cw
   \<and> py_int (py_or (get v ''max_output_tokens'') (JInt 0)) = Inr mo
   \<and> e = \<lparr>provider = p, model_id = mid,
          display_name = py_or (get v ''display_name'') (JStr mid),
          mode = mode_map_get (get v ''mode''),
          context_window = cw, max_output_tokens = mo, pricing = pr,
          capabilities = convert_caps v, lifecycle = convert_lifecycle v,
          source = py_or (get v ''source'') (JStr ''''),
          updated_at = ''2026-02-28''\<rparr>"
  using assms
  by (auto simp: convert_entry_def Let_def ebind_eq_Inr split: if_splits)

lemma convert_entry_capabilities:
  "convert_entry k v p = Inr (Some e) \<Longrightarrow> capabilities e = convert_caps v"
  by (drule convert_entry_Some) auto

lemma canonical_provider_openai: "canonical_provider ''openai'' = ''openai''"
  by (simp add: canonical_provider_def PROVIDER_ALIASES_def)

text \<open>The equations that evaluate the converter on a concrete input.\<close>

lemmas eval_defs =
  convert_entry_def in_skip_modes_def mode_map_get_def derive_model_id_of_def
  derive_model_id_def canonical_provider_openai MODE_MAP_def
  SKIP_MODES_def get_def get_default_def general_pricing_def embedding_pricing_def
  audio_in_per_min_def per_m_def is_not_none_def py_or_def convert_caps_def
  convert_lifecycle_def startswith_def ebind_Inl ebind_Inr bool_int_def Let_def
  openai_chat_def openai_embedding_def plain_entry_def null_pricing_def no_caps_def
  priced_def

lemma general_pricing_Some:
  assumes "general_pricing v = Inr pr"
  shows "audio_in_per_min v = Inr (audio_input_per_minute pr)"
    and "per_m (get v ''input_cost_per_token'') = Inr (input_per_m_tokens pr)"
    and "per_m (get v ''output_cost_per_token'') = Inr (output_per_m_tokens pr)"
    and "per_m (get v ''cache_read_input_token_cost'') = Inr (cache_read_per_m_tokens pr)"
    and "per_m (get v ''cache_creation_input_token_cost'')
           = Inr (cache_write_per_m_tokens pr)"
    and "per_m (get v ''input_cost_per_reasoning_token'') = Inr (reasoning_per_m_tokens pr)"
    and "per_m (get v ''ft_input_cost_per_token'') = Inr (finetune_train_per_m_tokens pr)"
    and "per_m (get v ''ft_input_cost_per_token'') = Inr (finetune_input_per_m_tokens pr)"
    and "per_m (get v ''ft_output_cost_per_token'') = Inr (finetune_output_per_m_tokens pr)"
    and "image_per_tile pr = get v ''output_cost_per_image''"
    and "audio_output_per_character pr = get v ''output_cost_per_character''"
    and "embedding_per_m_tokens pr = JNull"
  using assms by (auto simp: general_pricing_def ebind_eq_Inr)

lemma embedding_pricing_Some:
  assumes "embedding_pricing v = Inr pr"
  shows "per_m (get v ''input_cost_per_token'') = Inr (embedding_per_m_tokens pr)"
    and "pr = null_pricing\<lparr>embedding_per_m_tokens := embedding_per_m_tokens pr\<rparr>"
  using assms by (auto simp: embedding_pricing_def ebind_eq_Inr null_pricing_def)

lemma convert_entry_pricing:
  assumes "convert_entry k v p = Inr (Some e)"
  shows "mode e = mode_map_get (get v ''mode'')"
    and "mode e \<noteq> ''embedding'' \<Longrightarrow> general_pricing v = Inr (pricing e)"
    and "mode e = ''embedding'' \<Longrightarrow> embedding_pricing v = Inr (pricing e)"
  using convert_entry_Some [OF assms] by (auto split: if_splits)

lemma per_m_rate_iff: "per_m c = Inr r \<longleftrightarrow> per_m_rate c r"
  by (auto simp: per_m_def per_m_rate_def)

lemma audio_rate_iff: "audio_in_per_min v = Inr r \<longleftrightarrow> audio_rate v r"
  by (auto simp: audio_in_per_min_def audio_rate_def per_minute_rate_def is_not_none_def)

lemma py_round_not_null: "py_round x nd = Inr r \<Longrightarrow> r \<noteq> JNull"
  by (cases x) (auto simp: ebind_eq_Inr)

lemma per_m_not_null: "per_m c = Inr r \<Longrightarrow> c \<noteq> JNull \<Longrightarrow> r \<noteq> JNull"
  by (auto simp: per_m_def ebind_eq_Inr dest: py_round_not_null)

lemma length_alist_update:
  "length (AList.update k v al) = (if k \<in> fst ` set al then length al else Suc (length al))"
  by (induct al) auto

lemma store_entry_new:
  "map_of (catalog s) key = None \<Longrightarrow>
   store_entry key e s = s\<lparr>catalog := AList.update key e (catalog s), written := written s + 1\<rparr>"
  by (simp add: store_entry_def)

lemma store_entry_dup:
  "map_of (catalog s) key = Some old \<Longrightarrow>
   store_entry key e s =
     (if has_pricing e \<and> \<not> has_pricing old
      then s\<lparr>duplicates := duplicates s + 1, catalog := AList.update key e (catalog s)\<rparr>
      else s\<lparr>duplicates := duplicates s + 1\<rparr>)"
  by (simp add: store_entry_def Let_def)

lemma main_step_cases:
  assumes "main_step kv s = Inr s'"
  shows "s' = s\<lparr>skipped_spec := skipped_spec s + 1\<rparr>
       \<or> s' = s
       \<or> s' = s\<lparr>skipped_no_provider := skipped_no_provider s + 1\<rparr>
       \<or> s' = s\<lparr>skipped_mode := skipped_mode s + 1\<rparr>
       \<or> (\<exists>v lp e. snd kv = JObj v
            \<and> convert_entry (fst kv) v (canonical_provider lp) = Inr (Some e)
            \<and> s' = store_entry (canonical_provider lp @ ''/'' @ model_id e) e s)"
  using assms
  by (auto simp: main_step_def Let_def ebind_eq_Inr
      split: if_splits json.splits option.splits)

lemma main_loop_preserves:
  assumes step: "\<And>kv s s'. main_step kv s = Inr s' \<Longrightarrow> P s \<Longrightarrow> P s'"
  shows "main_loop raw s = Inr s' \<Longrightarrow> P s \<Longrightarrow> P s'"
proof (induction raw arbitrary: s)
  case Nil
  then show ?case by simp
next
  case (Cons kv rest)
  from Cons.prems(1) obtain s1 where s1: "main_step kv s = Inr s1" "main_loop rest s1 = Inr s'"
    by (auto simp: ebind_eq_Inr)
  from step [OF s1(1) Cons.prems(2)] have "P s1" .
  from Cons.IH [OF s1(2) this] show ?case .
qed

lemma store_entry_written:
  assumes "written s = length (catalog s) \<and> distinct (map fst (catalog s))"
  shows "written (store_entry key e s) = length (catalog (store_entry key e s))
         \<and> distinct (map fst (catalog (store_entry key e s)))"
proof (cases "map_of (catalog s) key")
  case None
  then have "key \<notin> fst ` set (catalog s)"
    by (simp add: map_of_eq_None_iff)
  with assms None show ?thesis
    by (simp add: store_entry_new length_alist_update AList.distinct_update)
next
  case (Some old)
  then have "key \<in> fst ` set (catalog s)"
    by (metis map_of_eq_None_iff option.distinct(1))
  with assms Some show ?thesis
    by (simp add: store_entry_dup length_alist_update AList.distinct_update)
qed

lemma main_step_written:
  assumes "main_step kv s = Inr s'"
    and "written s = length (catalog s) \<and> distinct (map fst (catalog s))"
  shows "written s' = length (catalog s') \<and> distinct (map fst (catalog s'))"
  using main_step_cases [OF assms(1)] assms(2) store_entry_written [OF assms(2)]
  by auto

lemma store_entry_keeps_priced:
  assumes "map_of (catalog s) key = Some e" "has_pricing e"
  shows "map_of (catalog (store_entry key' e' s)) key = Some e"
  using assms
  by (cases "map_of (catalog s) key'")
     (auto simp: store_entry_new store_entry_dup AList.update_conv')

lemma main_step_keeps_priced:
  assumes "main_step kv s = Inr s'"
    and "map_of (catalog s) key = Some e \<and> has_pricing e"
  shows "map_of (catalog s') key = Some e \<and> has_pricing e"
  using main_step_cases [OF assms(1)] assms(2) store_entry_keeps_priced [of s key e]
  by auto

lemma main_step_accept:
  assumes "k \<noteq> ''sample_spec''" "get v ''litellm_provider'' = JStr lp" "lp \<noteq> []"
    and "convert_entry k v (canonical_provider lp) = Inr (Some e)"
  shows "main_step (k, JObj v) s
         = Inr (store_entry (canonical_provider lp @ ''/'' @ model_id e) e s)"
  using assms by (simp add: main_step_def Let_def py_or_def ebind_Inr)

lemma input_cost_has_pricing:
  assumes "convert_entry k v p = Inr (Some e)" "get v ''input_cost_per_token'' \<noteq> JNull"
  shows "has_pricing e"
proof (cases "mode e = ''embedding''")
  case True
  from embedding_pricing_Some(1) [OF convert_entry_pricing(3) [OF assms(1) True]] assms(2)
  have "embedding_per_m_tokens (pricing e) \<noteq> JNull" by (rule per_m_not_null)
  then show ?thesis by (simp add: has_pricing_def is_not_none_def Let_def)
next
  case False
  from general_pricing_Some(2) [OF convert_entry_pricing(2) [OF assms(1) False]] assms(2)
  have "input_per_m_tokens (pricing e) \<noteq> JNull" by (rule per_m_not_null)
  then show ?thesis by (simp add: has_pricing_def is_not_none_def Let_def)
qed

lemmas main_eval = main_run_def init_state_def main_step_def store_entry_def has_pricing_def
  foo_twice_def gpt4_foo_def

lemma main_loop_append:
  "main_loop (xs @ ys) s = ebind (main_loop xs s) (main_loop ys)"
proof (induction xs arbitrary: s)
  case Nil
  show ?case by (simp add: ebind_Inr)
next
  case (Cons kv xs)
  show ?case
    by (cases "main_step kv s") (simp_all add: ebind_Inl ebind_Inr Cons.IH)
qed

lemma in_set_alist_update:
  "x \<in> set (AList.update k v al) \<Longrightarrow> x = (k, v) \<or> x \<in> set al"
  by (induct al) (auto split: if_splits)

lemma store_entry_catalog:
  "x \<in> set (catalog (store_entry key e s)) \<Longrightarrow> x = (key, e) \<or> x \<in> set (catalog s)"
  by (cases "map_of (catalog s) key")
     (auto simp: store_entry_new store_entry_dup dest: in_set_alist_update split: if_splits)

text \<open>Every entry of the catalog has been returned by \<^verbatim>\<open>convert_entry\<close>.\<close>

lemma main_step_converted:
  assumes "main_step kv s = Inr s'"
    and "\<forall>x\<in>set (catalog s). Q (snd x)"
    and conv: "\<And>k v p e. convert_entry k v p = Inr (Some e) \<Longrightarrow> Q e"
  shows "\<forall>x\<in>set (catalog s'). Q (snd x)"
  using main_step_cases [OF assms(1)] assms(2)
  by (auto dest!: store_entry_catalog conv)

lemma catalog_entries_converted:
  assumes conv: "\<And>k v p e. convert_entry k v p = Inr (Some e) \<Longrightarrow> Q e"
    and run: "main_run raw = Inr s"
    and mem: "(key, e) \<in> set (catalog s)"
  shows "Q e"
proof -
  have "\<forall>x\<in>set (catalog s). Q (snd x)"
  proof (rule main_loop_preserves [where P = "\<lambda>s. \<forall>x\<in>set (catalog s). Q (snd x)"])
    show "main_loop raw init_state = Inr s"
      using run by (simp add: main_run_def)
    show "\<forall>x\<in>set (catalog init_state). Q (snd x)"
      by (simp add: init_state_def)
    fix kv s1 s2
    assume "main_step kv s1 = Inr s2" and "\<forall>x\<in>set (catalog s1). Q (snd x)"
    then show "\<forall>x\<in>set (catalog s2). Q (snd x)"
      using conv by (rule main_step_converted)
  qed
  with mem show ?thesis by force
qed

section \<open>Pricing units\<close>

text \<open>
  C1 as stated: for every source attribute mapping, a present per-token cost converts
  to \<^verbatim>\<open>round(c * 1_000_000, 10)\<close> in the corresponding per-million rate, and the
  audio-input rate is the cost per second multiplied by 60. Neither holds for every
  mapping. An embedding-mode entry carries only the embedding rate: its output cost
  and its audio cost are dropped. And the product by 60 is rounded to 10 decimals as
  well: a cost of \<open>2^-50\<close> per second gives the rate 0, not \<open>60 * 2^-50\<close>.
\<close>

theorem pricing_conversion_counterexample:
  "convert_entry ''ada''
      (openai_embedding [(''output_cost_per_token'', JInt 1),
                         (''input_cost_per_second'', JInt 1)]) ''openai''
     = Inr (Some ((plain_entry ''openai'' ''ada'')\<lparr>mode := ''embedding''\<rparr>))
   \<and> \<not> per_m_rate
         (get (openai_embedding [(''output_cost_per_token'', JInt 1),
                                 (''input_cost_per_second'', JInt 1)])
            ''output_cost_per_token'')
         (output_per_m_tokens
            (pricing ((plain_entry ''openai'' ''ada'')\<lparr>mode := ''embedding''\<rparr>)))
   \<and> \<not> audio_rate
         (openai_embedding [(''output_cost_per_token'', JInt 1),
                            (''input_cost_per_second'', JInt 1)])
         (audio_input_per_minute
            (pricing ((plain_entry ''openai'' ''ada'')\<lparr>mode := ''embedding''\<rparr>)))
   \<and> convert_entry ''whisper''
         (openai_chat [(''input_cost_per_second'', JFloat (Finite (1 / 1125899906842624)))])
         ''openai''
     = Inr (Some (priced (plain_entry ''openai'' ''whisper'')
                    (null_pricing\<lparr>audio_input_per_minute := JFloat (Finite 0)\<rparr>)))
   \<and> py_mul_int
         (get (openai_chat [(''input_cost_per_second'',
                             JFloat (Finite (1 / 1125899906842624)))])
            ''input_cost_per_second'') 60
     = Inr (JFloat (Finite (15 / 281474976710656)))"
  by (simp add: eval_defs float_eval per_m_rate_def audio_rate_def per_minute_rate_def)

text \<open>
  C1, amended. For every entry produced in a mode other than embedding, each
  per-token cost converts to its per-million rate (null to null, a present \<open>c\<close> to
  \<^verbatim>\<open>round(c * 1_000_000, 10)\<close>), and the audio-input rate is \<^verbatim>\<open>round(c * 60, 10)\<close> of
  the first present of \<^verbatim>\<open>input_cost_per_second\<close> and
  \<^verbatim>\<open>input_cost_per_audio_per_second\<close>, null when both are absent. For an entry
  produced in embedding mode the input cost converts in the same way to the embedding
  rate, and every other rate is null.
\<close>

theorem pricing_conversion:
  assumes "convert_entry k v p = Inr (Some e)"
  shows "(mode e \<noteq> ''embedding'' \<longrightarrow>
            per_m_rate (get v ''input_cost_per_token'') (input_per_m_tokens (pricing e))
          \<and> per_m_rate (get v ''output_cost_per_token'') (output_per_m_tokens (pricing e))
          \<and> per_m_rate (get v ''cache_read_input_token_cost'')
              (cache_read_per_m_tokens (pricing e))
          \<and> per_m_rate (get v ''cache_creation_input_token_cost'')
              (cache_write_per_m_tokens (pricing e))
          \<and> per_m_rate (get v ''input_cost_per_reasoning_token'')
              (reasoning_per_m_tokens (pricing e))
          \<and> per_m_rate (get v ''ft_input_cost_per_token'')
              (finetune_train_per_m_tokens (pricing e))
          \<and> per_m_rate (get v ''ft_input_cost_per_token'')
              (finetune_input_per_m_tokens (pricing e))
          \<and> per_m_rate (get v ''ft_output_cost_per_token'')
              (finetune_output_per_m_tokens (pricing e))
          \<and> audio_rate v (audio_input_per_minute (pricing e)))
       \<and> (mode e = ''embedding'' \<longrightarrow>
            per_m_rate (get v ''input_cost_per_token'') (embedding_per_m_tokens (pricing e))
          \<and> pricing e
              = null_pricing\<lparr>embedding_per_m_tokens := embedding_per_m_tokens (pricing e)\<rparr>)"
proof (intro conjI impI)
  assume m: "mode e = ''embedding''"
  note emb = convert_entry_pricing(3) [OF assms m]
  show "per_m_rate (get v ''input_cost_per_token'') (embedding_per_m_tokens (pricing e))"
    using embedding_pricing_Some(1) [OF emb] by (simp add: per_m_rate_iff)
  show "pricing e
      = null_pricing\<lparr>embedding_per_m_tokens := embedding_per_m_tokens (pricing e)\<rparr>"
    using embedding_pricing_Some(2) [OF emb] .
next
  assume m: "mode e \<noteq> ''embedding''"
  note g = general_pricing_Some [OF convert_entry_pricing(2) [OF assms m]]
  show "per_m_rate (get v ''input_cost_per_token'') (input_per_m_tokens (pricing e))"
    using g(2) by (simp add: per_m_rate_iff)
  show "per_m_rate (get v ''output_cost_per_token'') (output_per_m_tokens (pricing e))"
    using g(3) by (simp add: per_m_rate_iff)
  show "per_m_rate (get v ''cache_read_input_token_cost'')
      (cache_read_per_m_tokens (pricing e))"
    using g(4) by (simp add: per_m_rate_iff)
  show "per_m_rate (get v ''cache_creation_input_token_cost'')
      (cache_write_per_m_tokens (pricing e))"
    using g(5) by (simp add: per_m_rate_iff)
  show "per_m_rate (get v ''input_cost_per_reasoning_token'')
      (reasoning_per_m_tokens (pricing e))"
    using g(6) by (simp add: per_m_rate_iff)
  show "per_m_rate (get v ''ft_input_cost_per_token'')
      (finetune_train_per_m_tokens (pricing e))"
    using g(7) by (simp add: per_m_rate_iff)
  show "per_m_rate (get v ''ft_input_cost_per_token'')
      (finetune_input_per_m_tokens (pricing e))"
    using g(8) by (simp add: per_m_rate_iff)
  show "per_m_rate (get v ''ft_output_cost_per_token'')
      (finetune_output_per_m_tokens (pricing e))"
    using g(9) by (simp add: per_m_rate_iff)
  show "audio_rate v (audio_input_per_minute (pricing e))"
    using g(1) by (simp add: audio_rate_iff)
qed

theorem pricing_conversion_witness:
  "convert_entry ''whisper''
      (openai_chat [(''input_cost_per_token'', JInt 2),
                    (''input_cost_per_audio_per_second'', JInt 3)]) ''openai''
     = Inr (Some (priced (plain_entry ''openai'' ''whisper'')
                    (null_pricing\<lparr>input_per_m_tokens := JInt 2000000,
                                  audio_input_per_minute := JInt 180\<rparr>)))
   \<and> per_m_rate (JInt 2) (JInt 2000000)
   \<and> per_m_rate JNull JNull
   \<and> audio_rate (openai_chat [(''input_cost_per_token'', JInt 2),
                               (''input_cost_per_audio_per_second'', JInt 3)]) (JInt 180)
   \<and> convert_entry ''ada'' (openai_embedding [(''input_cost_per_token'', JInt 2)]) ''openai''
     = Inr (Some (priced ((plain_entry ''openai'' ''ada'')\<lparr>mode := ''embedding''\<rparr>)
                    (null_pricing\<lparr>embedding_per_m_tokens := JInt 2000000\<rparr>)))"
proof -
  have ev: "convert_entry ''whisper''
      (openai_chat [(''input_cost_per_token'', JInt 2),
                    (''input_cost_per_audio_per_second'', JInt 3)]) ''openai''
     = Inr (Some (priced (plain_entry ''openai'' ''whisper'')
                    (null_pricing\<lparr>input_per_m_tokens := JInt 2000000,
                                  audio_input_per_minute := JInt 180\<rparr>)))"
    by (simp add: eval_defs)
  have ev': "convert_entry ''ada''
      (openai_embedding [(''input_cost_per_token'', JInt 2)]) ''openai''
     = Inr (Some (priced ((plain_entry ''openai'' ''ada'')\<lparr>mode := ''embedding''\<rparr>)
                    (null_pricing\<lparr>embedding_per_m_tokens := JInt 2000000\<rparr>)))"
    by (simp add: eval_defs)
  from pricing_conversion [OF ev] pricing_conversion [OF ev'] ev ev' show ?thesis
    by (simp add: eval_defs)
qed

section \<open>Duplicates\<close>

text \<open>
  C2. When a converted entry arrives under a key the catalog already has, the
  \<open>duplicates\<close> counter goes up by one in either case, and the new entry replaces the
  stored one exactly when the new one has a non-null rate among input, output,
  embedding, image tile, audio input and audio output and the stored one has none.
  In the scenario of two source entries with one catalog key, the first unpriced and
  the second with \<^verbatim>\<open>input_cost_per_token\<close> set, the run ends with the second entry in
  the catalog and \<open>duplicates = 1\<close>.
\<close>

theorem duplicate_resolution:
  "(k \<noteq> ''sample_spec'' \<and> get v ''litellm_provider'' = JStr lp \<and> lp \<noteq> []
      \<and> convert_entry k v (canonical_provider lp) = Inr (Some e)
      \<and> map_of (catalog s) (canonical_provider lp @ ''/'' @ model_id e) = Some old
    \<longrightarrow> main_step (k, JObj v) s
        = Inr (if has_pricing e \<and> \<not> has_pricing old
               then s\<lparr>duplicates := duplicates s + 1,
                      catalog := AList.update (canonical_provider lp @ ''/'' @ model_id e) e
                                   (catalog s)\<rparr>
               else s\<lparr>duplicates := duplicates s + 1\<rparr>))
   \<and> (has_pricing e \<longleftrightarrow>
        input_per_m_tokens (pricing e) \<noteq> JNull \<or> output_per_m_tokens (pricing e) \<noteq> JNull
        \<or> embedding_per_m_tokens (pricing e) \<noteq> JNull \<or> image_per_tile (pricing e) \<noteq> JNull
        \<or> audio_input_per_minute (pricing e) \<noteq> JNull
        \<or> audio_output_per_character (pricing e) \<noteq> JNull)
   \<and> (k1 \<noteq> ''sample_spec'' \<and> get v1 ''litellm_provider'' = JStr lp1 \<and> lp1 \<noteq> []
      \<and> k2 \<noteq> ''sample_spec'' \<and> get v2 ''litellm_provider'' = JStr lp2 \<and> lp2 \<noteq> []
      \<and> convert_entry k1 v1 (canonical_provider lp1) = Inr (Some e1)
      \<and> convert_entry k2 v2 (canonical_provider lp2) = Inr (Some e2)
      \<and> canonical_provider lp1 @ ''/'' @ model_id e1
          = canonical_provider lp2 @ ''/'' @ model_id e2
      \<and> \<not> has_pricing e1 \<and> get v2 ''input_cost_per_token'' \<noteq> JNull
    \<longrightarrow> main_run [(k1, JObj v1), (k2, JObj v2)]
        = Inr \<lparr>catalog = [(canonical_provider lp2 @ ''/'' @ model_id e2, e2)],
               skipped_spec = 0, skipped_mode = 0, skipped_no_provider = 0,
               duplicates = 1, written = 1\<rparr>)"
proof (intro conjI impI)
  assume a: "k \<noteq> ''sample_spec'' \<and> get v ''litellm_provider'' = JStr lp \<and> lp \<noteq> []
      \<and> convert_entry k v (canonical_provider lp) = Inr (Some e)
      \<and> map_of (catalog s) (canonical_provider lp @ ''/'' @ model_id e) = Some old"
  then have "main_step (k, JObj v) s
      = Inr (store_entry (canonical_provider lp @ ''/'' @ model_id e) e s)"
    by (simp add: main_step_accept)
  with a show "main_step (k, JObj v) s
        = Inr (if has_pricing e \<and> \<not> has_pricing old
               then s\<lparr>duplicates := duplicates s + 1,
                      catalog := AList.update (canonical_provider lp @ ''/'' @ model_id e) e
                                   (catalog s)\<rparr>
               else s\<lparr>duplicates := duplicates s + 1\<rparr>)"
    by (simp add: store_entry_dup)
next
  show "has_pricing e \<longleftrightarrow>
        input_per_m_tokens (pricing e) \<noteq> JNull \<or> output_per_m_tokens (pricing e) \<noteq> JNull
        \<or> embedding_per_m_tokens (pricing e) \<noteq> JNull \<or> image_per_tile (pricing e) \<noteq> JNull
        \<or> audio_input_per_minute (pricing e) \<noteq> JNull
        \<or> audio_output_per_character (pricing e) \<noteq> JNull"
    by (auto simp: has_pricing_def is_not_none_def Let_def)
next
  assume a: "k1 \<noteq> ''sample_spec'' \<and> get v1 ''litellm_provider'' = JStr lp1 \<and> lp1 \<noteq> []
      \<and> k2 \<noteq> ''sample_spec'' \<and> get v2 ''litellm_provider'' = JStr lp2 \<and> lp2 \<noteq> []
      \<and> convert_entry k1 v1 (canonical_provider lp1) = Inr (Some e1)
      \<and> convert_entry k2 v2 (canonical_provider lp2) = Inr (Some e2)
      \<and> canonical_provider lp1 @ ''/'' @ model_id e1
          = canonical_provider lp2 @ ''/'' @ model_id e2
      \<and> \<not> has_pricing e1 \<and> get v2 ''input_cost_per_token'' \<noteq> JNull"
  define key where "key = canonical_provider lp2 @ ''/'' @ model_id e2"
  define s1 where "s1 = init_state\<lparr>catalog := [(key, e1)], written := 1\<rparr>"
  from a have hp: "has_pricing e2"
    using input_cost_has_pricing by blast
  from a have "main_step (k1, JObj v1) init_state = Inr (store_entry key e1 init_state)"
    by (simp add: main_step_accept key_def)
  then have step1: "main_step (k1, JObj v1) init_state = Inr s1"
    by (simp add: store_entry_new init_state_def s1_def)
  from a have "main_step (k2, JObj v2) s1 = Inr (store_entry key e2 s1)"
    by (simp add: main_step_accept key_def)
  moreover have "map_of (catalog s1) key = Some e1"
    by (simp add: s1_def)
  ultimately have step2: "main_step (k2, JObj v2) s1
      = Inr (s1\<lparr>duplicates := duplicates s1 + 1,
                 catalog := AList.update key e2 (catalog s1)\<rparr>)"
    using hp a by (simp add: store_entry_dup)
  show "main_run [(k1, JObj v1), (k2, JObj v2)]
        = Inr \<lparr>catalog = [(canonical_provider lp2 @ ''/'' @ model_id e2, e2)],
               skipped_spec = 0, skipped_mode = 0, skipped_no_provider = 0,
               duplicates = 1, written = 1\<rparr>"
    by (simp add: main_run_def step1 step2 ebind_Inr)
       (simp add: s1_def init_state_def key_def)
qed

theorem duplicate_resolution_witness:
  "main_step (''foo'', JObj (openai_chat [(''input_cost_per_token'', JInt 1)]))
     \<lparr>catalog = [(''openai/foo'', plain_entry ''openai'' ''foo'')],
      skipped_spec = 0, skipped_mode = 0, skipped_no_provider = 0,
      duplicates = 0, written = 1\<rparr>
   = Inr \<lparr>catalog = [(''openai/foo'', priced (plain_entry ''openai'' ''foo'')
                         (null_pricing\<lparr>input_per_m_tokens := JInt 1000000\<rparr>))],
          skipped_spec = 0, skipped_mode = 0, skipped_no_provider = 0,
          duplicates = 1, written = 1\<rparr>
   \<and> main_run (foo_twice [] [(''input_cost_per_token'', JInt 1)])
   = Inr \<lparr>catalog = [(''openai/foo'', priced (plain_entry ''openai'' ''foo'')
                         (null_pricing\<lparr>input_per_m_tokens := JInt 1000000\<rparr>))],
          skipped_spec = 0, skipped_mode = 0, skipped_no_provider = 0,
          duplicates = 1, written = 1\<rparr>"
proof -
  let ?v1 = "openai_chat []"
  let ?v2 = "openai_chat [(''input_cost_per_token'', JInt 1)]"
  let ?e1 = "plain_entry ''openai'' ''foo''"
  let ?e2 = "priced (plain_entry ''openai'' ''foo'')
      (null_pricing\<lparr>input_per_m_tokens := JInt 1000000\<rparr>)"
  let ?s = "\<lparr>catalog = [(''openai/foo'', ?e1)],
      skipped_spec = 0, skipped_mode = 0, skipped_no_provider = 0,
      duplicates = 0, written = 1\<rparr>"
  have c1: "convert_entry ''openai/foo'' ?v1 (canonical_provider ''openai'') = Inr (Some ?e1)"
    by (simp add: eval_defs)
  have c2: "convert_entry ''foo'' ?v2 (canonical_provider ''openai'') = Inr (Some ?e2)"
    by (simp add: eval_defs)
  have p: "get ?v1 ''litellm_provider'' = JStr ''openai''"
    "get ?v2 ''litellm_provider'' = JStr ''openai''"
    "get ?v2 ''input_cost_per_token'' \<noteq> JNull"
    by (simp_all add: eval_defs)
  have m: "model_id ?e1 = ''foo''" "model_id ?e2 = ''foo''"
    by (simp_all add: eval_defs)
  have h: "\<not> has_pricing ?e1" "has_pricing ?e2"
    by (simp_all add: has_pricing_def eval_defs)
  have look: "map_of (catalog ?s) (canonical_provider ''openai'' @ ''/'' @ model_id ?e2)
      = Some ?e1"
    by (simp add: m canonical_provider_openai)
  from duplicate_resolution [of "''foo''" ?v2 "''openai''" ?e2 ?s ?e1
      "''openai/foo''" ?v1 "''openai''" "''foo''" ?v2 "''openai''" ?e1 ?e2]
    c1 c2 p m h look
  show ?thesis
    by (simp add: foo_twice_def canonical_provider_openai)
qed

text \<open>
  C3 as stated: once the catalog holds under a key an entry with any non-null price
  field, no later source entry for that key replaces it. \<^verbatim>\<open>has_pricing\<close> reads six of
  the rates only. An entry whose only price is a cache-read rate counts as unpriced,
  and a later entry with an input price replaces it.
\<close>

theorem cache_price_replaced_counterexample:
  "main_run [(''openai/foo'', JObj (openai_chat [(''cache_read_input_token_cost'', JInt 1)]))]
   = Inr \<lparr>catalog = [(''openai/foo'', priced (plain_entry ''openai'' ''foo'')
                         (null_pricing\<lparr>cache_read_per_m_tokens := JInt 1000000\<rparr>))],
          skipped_spec = 0, skipped_mode = 0, skipped_no_provider = 0,
          duplicates = 0, written = 1\<rparr>
   \<and> cache_read_per_m_tokens (pricing (priced (plain_entry ''openai'' ''foo'')
         (null_pricing\<lparr>cache_read_per_m_tokens := JInt 1000000\<rparr>))) \<noteq> JNull
   \<and> main_run (foo_twice [(''cache_read_input_token_cost'', JInt 1)]
                          [(''input_cost_per_token'', JInt 1)])
   = Inr \<lparr>catalog = [(''openai/foo'', priced (plain_entry ''openai'' ''foo'')
                         (null_pricing\<lparr>input_per_m_tokens := JInt 1000000\<rparr>))],
          skipped_spec = 0, skipped_mode = 0, skipped_no_provider = 0,
          duplicates = 1, written = 1\<rparr>
   \<and> priced (plain_entry ''openai'' ''foo'')
         (null_pricing\<lparr>input_per_m_tokens := JInt 1000000\<rparr>)
     \<noteq> priced (plain_entry ''openai'' ''foo'')
         (null_pricing\<lparr>cache_read_per_m_tokens := JInt 1000000\<rparr>)"
  by (simp add: main_eval eval_defs)

text \<open>
  C3, amended. Once the catalog holds under a key an entry with a non-null rate among
  the six that \<^verbatim>\<open>has_pricing\<close> reads (input, output, embedding, image tile, audio
  input, audio output), no later source entry, priced or not, replaces it: the entry
  is still there at the end of the run.
\<close>

theorem priced_entry_is_kept:
  assumes "main_run before = Inr s"
    and "map_of (catalog s) key = Some e"
    and "has_pricing e"
    and "main_run (before @ rest) = Inr s'"
  shows "map_of (catalog s') key = Some e"
proof -
  from assms(1,4) have run: "main_loop rest s = Inr s'"
    by (simp add: main_run_def main_loop_append ebind_Inr)
  have "map_of (catalog s') key = Some e \<and> has_pricing e"
  proof (rule main_loop_preserves
      [where P = "\<lambda>s. map_of (catalog s) key = Some e \<and> has_pricing e"])
    show "main_loop rest s = Inr s'" by (rule run)
    show "map_of (catalog s) key = Some e \<and> has_pricing e"
      using assms(2,3) by simp
    fix kv s1 s2
    assume "main_step kv s1 = Inr s2"
      and "map_of (catalog s1) key = Some e \<and> has_pricing e"
    then show "map_of (catalog s2) key = Some e \<and> has_pricing e"
      by (rule main_step_keeps_priced)
  qed
  then show ?thesis by simp
qed

theorem priced_entry_is_kept_witness:
  "main_run [(''openai/foo'', JObj (openai_chat [(''input_cost_per_token'', JInt 1)]))]
   = Inr \<lparr>catalog = [(''openai/foo'', priced (plain_entry ''openai'' ''foo'')
                         (null_pricing\<lparr>input_per_m_tokens := JInt 1000000\<rparr>))],
          skipped_spec = 0, skipped_mode = 0, skipped_no_provider = 0,
          duplicates = 0, written = 1\<rparr>
   \<and> has_pricing (priced (plain_entry ''openai'' ''foo'')
         (null_pricing\<lparr>input_per_m_tokens := JInt 1000000\<rparr>))
   \<and> main_run ([(''openai/foo'', JObj (openai_chat [(''input_cost_per_token'', JInt 1)]))]
               @ [(''foo'', JObj (openai_chat [(''input_cost_per_token'', JInt 2)]))])
   = Inr \<lparr>catalog = [(''openai/foo'', priced (plain_entry ''openai'' ''foo'')
                         (null_pricing\<lparr>input_per_m_tokens := JInt 1000000\<rparr>))],
          skipped_spec = 0, skipped_mode = 0, skipped_no_provider = 0,
          duplicates = 1, written = 1\<rparr>"
proof -
  have ev: "main_run
      [(''openai/foo'', JObj (openai_chat [(''input_cost_per_token'', JInt 1)]))]
   = Inr \<lparr>catalog = [(''openai/foo'', priced (plain_entry ''openai'' ''foo'')
                         (null_pricing\<lparr>input_per_m_tokens := JInt 1000000\<rparr>))],
          skipped_spec = 0, skipped_mode = 0, skipped_no_provider = 0,
          duplicates = 0, written = 1\<rparr>"
    by (simp add: main_eval eval_defs)
  have ev': "main_run
      ([(''openai/foo'', JObj (openai_chat [(''input_cost_per_token'', JInt 1)]))]
       @ [(''foo'', JObj (openai_chat [(''input_cost_per_token'', JInt 2)]))])
   = Inr \<lparr>catalog = [(''openai/foo'', priced (plain_entry ''openai'' ''foo'')
                         (null_pricing\<lparr>input_per_m_tokens := JInt 1000000\<rparr>))],
          skipped_spec = 0, skipped_mode = 0, skipped_no_provider = 0,
          duplicates = 1, written = 1\<rparr>"
    by (simp add: main_eval eval_defs)
  have hp: "has_pricing (priced (plain_entry ''openai'' ''foo'')
         (null_pricing\<lparr>input_per_m_tokens := JInt 1000000\<rparr>))"
    by (simp add: has_pricing_def eval_defs)
  have look: "map_of (catalog \<lparr>catalog = [(''openai/foo'', priced (plain_entry ''openai'' ''foo'')
                         (null_pricing\<lparr>input_per_m_tokens := JInt 1000000\<rparr>))],
          skipped_spec = 0, skipped_mode = 0, skipped_no_provider = 0,
          duplicates = 0, written = 1\<rparr>) ''openai/foo''
      = Some (priced (plain_entry ''openai'' ''foo'')
                (null_pricing\<lparr>input_per_m_tokens := JInt 1000000\<rparr>))"
    by simp
  from priced_entry_is_kept [OF ev look hp ev'] ev ev' hp show ?thesis
    by simp
qed

section \<open>The example scenario\<close>

text \<open>
  C4 as stated: the single source entry \<open>gpt-4/foo\<close> of provider \<open>openai\<close> gives the
  catalog key \<open>openai/foo\<close>. The key \<open>gpt-4/foo\<close> starts with neither \<open>openai/\<close> nor
  any other provider prefix that \<^verbatim>\<open>derive_model_id\<close> tries, so it is kept whole: the
  catalog has the one key \<open>openai/gpt-4/foo\<close> and no key \<open>openai/foo\<close>.
\<close>

theorem gpt4_foo_key_counterexample:
  "main_run gpt4_foo
   = Inr \<lparr>catalog = [(''openai/gpt-4/foo'', priced (plain_entry ''openai'' ''gpt-4/foo'')
                         (null_pricing\<lparr>input_per_m_tokens := JFloat (Finite 30)\<rparr>))],
          skipped_spec = 0, skipped_mode = 0, skipped_no_provider = 0,
          duplicates = 0, written = 1\<rparr>
   \<and> map_of [(''openai/gpt-4/foo'', priced (plain_entry ''openai'' ''gpt-4/foo'')
                (null_pricing\<lparr>input_per_m_tokens := JFloat (Finite 30)\<rparr>))]
        ''openai/foo'' = None"
  by (simp add: main_eval eval_defs float_eval)

text \<open>
  C4, amended. For that source entry the conversion produces the catalog key
  \<open>openai/gpt-4/foo\<close>, with \<open>input_per_m_tokens\<close> equal to 30.0 and \<open>streaming\<close> true.
\<close>

theorem gpt4_foo_conversion:
  "map_sum id (\<lambda>s. map fst (catalog s)) (main_run gpt4_foo) = Inr [''openai/gpt-4/foo'']
   \<and> map_sum id (\<lambda>s. map (\<lambda>ke. input_per_m_tokens (pricing (snd ke))) (catalog s))
        (main_run gpt4_foo) = Inr [JFloat (Finite 30)]
   \<and> map_sum id (\<lambda>s. map (\<lambda>ke. streaming (capabilities (snd ke))) (catalog s))
        (main_run gpt4_foo) = Inr [True]"
  by (simp add: main_eval eval_defs float_eval)

section \<open>Skipped entries\<close>

text \<open>
  C5 as stated: each of the four kinds of skipped entry increments a counter of its
  own. The loop has counters for three of them; a value that is not a record is
  passed over with no counter touched.
\<close>

theorem non_record_skip_counterexample:
  "main_run [(''gpt-4'', JStr ''n/a'')]
   = Inr \<lparr>catalog = [], skipped_spec = 0, skipped_mode = 0, skipped_no_provider = 0,
          duplicates = 0, written = 0\<rparr>"
  by (simp add: main_run_def init_state_def main_step_def ebind_Inr)

text \<open>
  C5, amended. The reserved key \<open>sample_spec\<close>, a missing or empty provider tag and an
  unsupported mode each increment a counter of their own (\<open>skipped_spec\<close>,
  \<open>skipped_no_provider\<close>, \<open>skipped_mode\<close>); a value that is not a record changes no
  counter. In all four cases the catalog is left as it is and the run goes on with
  the next entry. (The mode is looked at under every provider tag the alias table
  can be asked for: any true value but a list or a dict.)
\<close>

theorem skip_counters:
  "main_step (''sample_spec'', x) s = Inr (s\<lparr>skipped_spec := skipped_spec s + 1\<rparr>)
   \<and> (k \<noteq> ''sample_spec'' \<and> (\<forall>v. x \<noteq> JObj v) \<longrightarrow> main_step (k, x) s = Inr s)
   \<and> (k \<noteq> ''sample_spec'' \<and> \<not> truthy (get v ''litellm_provider'')
        \<longrightarrow> main_step (k, JObj v) s
            = Inr (s\<lparr>skipped_no_provider := skipped_no_provider s + 1\<rparr>))
   \<and> (k \<noteq> ''sample_spec'' \<and> truthy (get v ''litellm_provider'')
        \<and> (\<forall>xs. get v ''litellm_provider'' \<noteq> JArr xs)
        \<and> (\<forall>kvs. get v ''litellm_provider'' \<noteq> JObj kvs)
        \<and> get v ''mode'' = JStr m \<and> m \<in> set SKIP_MODES
        \<longrightarrow> main_step (k, JObj v) s = Inr (s\<lparr>skipped_mode := skipped_mode s + 1\<rparr>))
   \<and> (main_step kv s = Inr s' \<longrightarrow> main_loop (kv # rest) s = main_loop rest s')"
proof (intro conjI impI)
  show "main_step (''sample_spec'', x) s = Inr (s\<lparr>skipped_spec := skipped_spec s + 1\<rparr>)"
    by (simp add: main_step_def)
next
  assume "k \<noteq> ''sample_spec'' \<and> (\<forall>v. x \<noteq> JObj v)"
  then show "main_step (k, x) s = Inr s"
    by (cases x) (simp_all add: main_step_def)
next
  assume "k \<noteq> ''sample_spec'' \<and> \<not> truthy (get v ''litellm_provider'')"
  then show "main_step (k, JObj v) s
      = Inr (s\<lparr>skipped_no_provider := skipped_no_provider s + 1\<rparr>)"
    by (simp add: main_step_def py_or_def)
next
  assume "k \<noteq> ''sample_spec'' \<and> truthy (get v ''litellm_provider'')
        \<and> (\<forall>xs. get v ''litellm_provider'' \<noteq> JArr xs)
        \<and> (\<forall>kvs. get v ''litellm_provider'' \<noteq> JObj kvs)
        \<and> get v ''mode'' = JStr m \<and> m \<in> set SKIP_MODES"
  then show "main_step (k, JObj v) s = Inr (s\<lparr>skipped_mode := skipped_mode s + 1\<rparr>)"
    by (cases "get v ''litellm_provider''")
       (simp_all add: main_step_def py_or_def convert_entry_def in_skip_modes_def ebind_Inr)
next
  assume "main_step kv s = Inr s'"
  then show "main_loop (kv # rest) s = main_loop rest s'"
    by (simp add: ebind_Inr)
qed

theorem skip_counters_witness:
  "main_run [(''sample_spec'', JObj []), (''gpt-4'', JStr ''n/a''), (''gpt-5'', JObj []),
             (''rerank-1'', JObj [(''litellm_provider'', JStr ''cohere''),
                                  (''mode'', JStr ''rerank'')])]
   = Inr \<lparr>catalog = [], skipped_spec = 1, skipped_mode = 1, skipped_no_provider = 1,
          duplicates = 0, written = 0\<rparr>"
proof -
  let ?r = "[(''litellm_provider'', JStr ''cohere''), (''mode'', JStr ''rerank'')]"
  let ?s1 = "init_state\<lparr>skipped_spec := skipped_spec init_state + 1\<rparr>"
  let ?s3 = "?s1\<lparr>skipped_no_provider := skipped_no_provider ?s1 + 1\<rparr>"
  let ?s4 = "?s3\<lparr>skipped_mode := skipped_mode ?s3 + 1\<rparr>"
  have h2: "''gpt-4'' \<noteq> ''sample_spec'' \<and> (\<forall>v. JStr ''n/a'' \<noteq> JObj v)"
    by simp
  have h3: "''gpt-5'' \<noteq> ''sample_spec'' \<and> \<not> truthy (get [] ''litellm_provider'')"
    by (simp add: get_def)
  have h4: "''rerank-1'' \<noteq> ''sample_spec'' \<and> truthy (get ?r ''litellm_provider'')
      \<and> (\<forall>xs. get ?r ''litellm_provider'' \<noteq> JArr xs)
      \<and> (\<forall>kvs. get ?r ''litellm_provider'' \<noteq> JObj kvs)
      \<and> get ?r ''mode'' = JStr ''rerank'' \<and> ''rerank'' \<in> set SKIP_MODES"
    by (simp add: get_def SKIP_MODES_def)
  have st1: "main_step (''sample_spec'', JObj []) init_state = Inr ?s1"
    using skip_counters [of "JObj []" init_state] by simp
  have st2: "main_step (''gpt-4'', JStr ''n/a'') ?s1 = Inr ?s1"
    using skip_counters [of "JStr ''n/a''" ?s1 "''gpt-4''"] h2 by simp
  have st3: "main_step (''gpt-5'', JObj []) ?s1 = Inr ?s3"
    using skip_counters [of _ ?s1 "''gpt-5''" "[]"] h3 by simp
  have st4: "main_step (''rerank-1'', JObj ?r) ?s3 = Inr ?s4"
    using skip_counters [of _ ?s3 "''rerank-1''" ?r "''rerank''"] h4 by simp
  have cont: "main_loop (kv # rest) s = main_loop rest s'"
    if "main_step kv s = Inr s'" for kv s s' rest
    using that skip_counters [where kv = kv and s = s and s' = s' and rest = rest]
    by blast
  have "main_run [(''sample_spec'', JObj []), (''gpt-4'', JStr ''n/a''), (''gpt-5'', JObj []),
      (''rerank-1'', JObj ?r)]
    = main_loop [(''gpt-4'', JStr ''n/a''), (''gpt-5'', JObj []), (''rerank-1'', JObj ?r)] ?s1"
    unfolding main_run_def by (rule cont [OF st1])
  also have "\<dots> = main_loop [(''gpt-5'', JObj []), (''rerank-1'', JObj ?r)] ?s1"
    by (rule cont [OF st2])
  also have "\<dots> = main_loop [(''rerank-1'', JObj ?r)] ?s3"
    by (rule cont [OF st3])
  also have "\<dots> = main_loop [] ?s4"
    by (rule cont [OF st4])
  also have "\<dots> = Inr \<lparr>catalog = [], skipped_spec = 1, skipped_mode = 1,
      skipped_no_provider = 1, duplicates = 0, written = 0\<rparr>"
    by (simp add: init_state_def)
  finally show ?thesis .
qed

section \<open>Model identifiers\<close>

text \<open>
  C6. The model identifier is a function of the composite key and the raw provider
  tag: a key that starts with the raw tag and a slash loses that prefix; otherwise a
  key that starts with the canonical provider and a slash loses that prefix;
  otherwise the key is returned unchanged.
\<close>

theorem derive_model_id_prefix_rule:
  "(key = lp @ ''/'' @ r \<longrightarrow> derive_model_id key lp = r)
   \<and> ((\<forall>r'. key \<noteq> lp @ ''/'' @ r') \<and> key = canonical_provider lp @ ''/'' @ r
        \<longrightarrow> derive_model_id key lp = r)
   \<and> ((\<forall>r'. key \<noteq> lp @ ''/'' @ r') \<and> (\<forall>r'. key \<noteq> canonical_provider lp @ ''/'' @ r')
        \<longrightarrow> derive_model_id key lp = key)"
  by (auto simp: derive_model_id_def startswith_iff Let_def)

theorem derive_model_id_prefix_rule_witness:
  "derive_model_id ''openai/foo'' ''openai'' = ''foo''
   \<and> derive_model_id ''openai/foo'' ''chatgpt'' = ''foo''
   \<and> derive_model_id ''gpt-4/foo'' ''openai'' = ''gpt-4/foo''"
proof -
  have c: "canonical_provider ''chatgpt'' = ''openai''"
    "canonical_provider ''openai'' = ''openai''"
    by (simp_all add: canonical_provider_def PROVIDER_ALIASES_def)
  from derive_model_id_prefix_rule [of "''openai/foo''" "''openai''" "''foo''"]
    derive_model_id_prefix_rule [of "''openai/foo''" "''chatgpt''" "''foo''"]
    derive_model_id_prefix_rule [of "''gpt-4/foo''" "''openai''" "''foo''"]
  show ?thesis by (simp add: c)
qed

section \<open>Capabilities\<close>

text \<open>
  C7. For every entry \<^verbatim>\<open>convert_entry\<close> produces, and so for every entry of the
  catalog at the end of a run, the \<open>json_mode\<close> flag equals the \<open>function_calling\<close>
  flag, and the \<open>streaming\<close> flag is true.
\<close>

theorem json_mode_follows_function_calling:
  "(convert_entry k v p = Inr (Some e) \<longrightarrow>
      json_mode (capabilities e) = function_calling (capabilities e)
      \<and> streaming (capabilities e))
   \<and> (main_run raw = Inr s \<and> (key, e') \<in> set (catalog s) \<longrightarrow>
      json_mode (capabilities e') = function_calling (capabilities e')
      \<and> streaming (capabilities e'))"
proof -
  have conv: "json_mode (capabilities e) = function_calling (capabilities e)
      \<and> streaming (capabilities e)"
    if "convert_entry k v p = Inr (Some e)" for k v p e
    using convert_entry_capabilities [OF that] by (simp add: convert_caps_def)
  show ?thesis
  proof (rule conjI; rule impI)
    assume "convert_entry k v p = Inr (Some e)"
    then show "json_mode (capabilities e) = function_calling (capabilities e)
        \<and> streaming (capabilities e)"
      by (rule conv)
  next
    assume a: "main_run raw = Inr s \<and> (key, e') \<in> set (catalog s)"
    show "json_mode (capabilities e') = function_calling (capabilities e')
        \<and> streaming (capabilities e')"
    proof (rule catalog_entries_converted
        [where Q = "\<lambda>e. json_mode (capabilities e) = function_calling (capabilities e)
            \<and> streaming (capabilities e)" and raw = raw and s = s and key = key])
      show "main_run raw = Inr s" and "(key, e') \<in> set (catalog s)"
        using a by simp_all
      fix k0 v0 p0 e0
      assume "convert_entry k0 v0 p0 = Inr (Some e0)"
      then show "json_mode (capabilities e0) = function_calling (capabilities e0)
          \<and> streaming (capabilities e0)"
        by (rule conv)
    qed
  qed
qed

theorem json_mode_follows_function_calling_witness:
  "convert_entry ''gpt-4o'' (openai_chat [(''supports_function_calling'', JBool True)])
     ''openai''
   = Inr (Some ((plain_entry ''openai'' ''gpt-4o'')
        \<lparr>capabilities := no_caps\<lparr>function_calling := True, json_mode := True\<rparr>\<rparr>))
   \<and> main_run [(''gpt-4o'', JObj (openai_chat [(''supports_function_calling'', JBool True)]))]
   = Inr \<lparr>catalog = [(''openai/gpt-4o'', (plain_entry ''openai'' ''gpt-4o'')
             \<lparr>capabilities := no_caps\<lparr>function_calling := True, json_mode := True\<rparr>\<rparr>)],
          skipped_spec = 0, skipped_mode = 0, skipped_no_provider = 0,
          duplicates = 0, written = 1\<rparr>
   \<and> json_mode (no_caps\<lparr>function_calling := True, json_mode := True\<rparr>)
   \<and> function_calling (no_caps\<lparr>function_calling := True, json_mode := True\<rparr>)
   \<and> streaming (no_caps\<lparr>function_calling := True, json_mode := True\<rparr>)"
proof -
  let ?e = "(plain_entry ''openai'' ''gpt-4o'')
      \<lparr>capabilities := no_caps\<lparr>function_calling := True, json_mode := True\<rparr>\<rparr>"
  let ?s = "\<lparr>catalog = [(''openai/gpt-4o'', ?e)],
      skipped_spec = 0, skipped_mode = 0, skipped_no_provider = 0,
      duplicates = 0, written = 1\<rparr>"
  have ev: "convert_entry ''gpt-4o''
      (openai_chat [(''supports_function_calling'', JBool True)]) ''openai'' = Inr (Some ?e)"
    by (simp add: eval_defs)
  have run: "main_run
      [(''gpt-4o'', JObj (openai_chat [(''supports_function_calling'', JBool True)]))]
    = Inr ?s"
    by (simp add: main_eval eval_defs)
  have mem: "(''openai/gpt-4o'', ?e) \<in> set (catalog ?s)"
    by simp
  from json_mode_follows_function_calling
    [of "''gpt-4o''" "openai_chat [(''supports_function_calling'', JBool True)]"
      "''openai''" ?e
      "[(''gpt-4o'', JObj (openai_chat [(''supports_function_calling'', JBool True)]))]"
      ?s "''openai/gpt-4o''" ?e]
    ev run mem
  show ?thesis
    by (simp add: no_caps_def)
qed

text \<open>
  C8. The claim: \<open>reasoning\<close> is true if and only if the reasoning-support flag is set
  or a non-null reasoning-token price is present, so that a present price of 0 makes
  it true. The script does not do this. It reads the price for the flag by its truth
  value, where its other reads of a price ask whether it is \<^verbatim>\<open>None\<close> (\<^verbatim>\<open>per_m\<close> on
  this same field, the audio-input branch, \<^verbatim>\<open>has_pricing\<close>). For a model whose only
  sign of reasoning is a reasoning-token price of 0 it stores the present rate 0 in
  \<open>reasoning_per_m_tokens\<close> and sets \<open>reasoning\<close> to false.
\<close>

theorem reasoning_zero_price_is_false:
  "convert_entry ''o1'' (openai_chat [(''input_cost_per_reasoning_token'', JInt 0)])
     ''openai''
   = Inr (Some ((plain_entry ''openai'' ''o1'')
        \<lparr>pricing := null_pricing\<lparr>reasoning_per_m_tokens := JInt 0\<rparr>\<rparr>))
   \<and> get (openai_chat [(''input_cost_per_reasoning_token'', JInt 0)])
         ''input_cost_per_reasoning_token'' \<noteq> JNull
   \<and> reasoning_per_m_tokens (pricing ((plain_entry ''openai'' ''o1'')
        \<lparr>pricing := null_pricing\<lparr>reasoning_per_m_tokens := JInt 0\<rparr>\<rparr>)) = JInt 0
   \<and> \<not> reasoning (capabilities ((plain_entry ''openai'' ''o1'')
        \<lparr>pricing := null_pricing\<lparr>reasoning_per_m_tokens := JInt 0\<rparr>\<rparr>))"
  by (simp add: eval_defs)

section \<open>Fine-tuning rates\<close>

text \<open>
  C9. For every entry produced in a mode other than embedding, and so for every such
  entry of the catalog at the end of a run, the rates
  \<open>finetune_train_per_m_tokens\<close> and \<open>finetune_input_per_m_tokens\<close> are equal: both are
  \<^verbatim>\<open>per_m\<close> of the one source field \<^verbatim>\<open>ft_input_cost_per_token\<close>.
\<close>

theorem finetune_train_eq_input:
  "(convert_entry k v p = Inr (Some e) \<and> mode e \<noteq> ''embedding'' \<longrightarrow>
      finetune_train_per_m_tokens (pricing e) = finetune_input_per_m_tokens (pricing e)
      \<and> per_m (get v ''ft_input_cost_per_token'')
          = Inr (finetune_train_per_m_tokens (pricing e))
      \<and> per_m (get v ''ft_input_cost_per_token'')
          = Inr (finetune_input_per_m_tokens (pricing e)))
   \<and> (main_run raw = Inr s \<and> (key, e') \<in> set (catalog s) \<and> mode e' \<noteq> ''embedding'' \<longrightarrow>
      finetune_train_per_m_tokens (pricing e') = finetune_input_per_m_tokens (pricing e'))"
proof -
  have conv: "per_m (get v ''ft_input_cost_per_token'')
        = Inr (finetune_train_per_m_tokens (pricing e))
      \<and> per_m (get v ''ft_input_cost_per_token'')
        = Inr (finetune_input_per_m_tokens (pricing e))"
    if c: "convert_entry k v p = Inr (Some e)" and m: "mode e \<noteq> ''embedding''" for k v p e
  proof -
    have g: "general_pricing v = Inr (pricing e)"
      using convert_entry_pricing(2) [OF c m] .
    from general_pricing_Some(7) [OF g] general_pricing_Some(8) [OF g]
    show ?thesis by simp
  qed
  have eq: "mode e \<noteq> ''embedding'' \<longrightarrow>
      finetune_train_per_m_tokens (pricing e) = finetune_input_per_m_tokens (pricing e)"
    if c: "convert_entry k v p = Inr (Some e)" for k v p e
  proof
    assume m: "mode e \<noteq> ''embedding''"
    from conv [OF c m]
    have "(Inr (finetune_train_per_m_tokens (pricing e)) :: pyerror + json)
        = Inr (finetune_input_per_m_tokens (pricing e))"
      by metis
    then show "finetune_train_per_m_tokens (pricing e)
        = finetune_input_per_m_tokens (pricing e)"
      by simp
  qed
  show ?thesis
  proof (intro conjI impI)
    assume a: "convert_entry k v p = Inr (Some e) \<and> mode e \<noteq> ''embedding''"
    then have c: "per_m (get v ''ft_input_cost_per_token'')
          = Inr (finetune_train_per_m_tokens (pricing e))
        \<and> per_m (get v ''ft_input_cost_per_token'')
          = Inr (finetune_input_per_m_tokens (pricing e))"
      using conv by blast
    from c show "per_m (get v ''ft_input_cost_per_token'')
        = Inr (finetune_train_per_m_tokens (pricing e))"
      by (rule conjunct1)
    from c show "per_m (get v ''ft_input_cost_per_token'')
        = Inr (finetune_input_per_m_tokens (pricing e))"
      by (rule conjunct2)
    from a show "finetune_train_per_m_tokens (pricing e)
        = finetune_input_per_m_tokens (pricing e)"
      using eq by blast
  next
    assume a: "main_run raw = Inr s \<and> (key, e') \<in> set (catalog s)
        \<and> mode e' \<noteq> ''embedding''"
    have "mode e' \<noteq> ''embedding'' \<longrightarrow>
        finetune_train_per_m_tokens (pricing e') = finetune_input_per_m_tokens (pricing e')"
    proof (rule catalog_entries_converted
        [where Q = "\<lambda>e. mode e \<noteq> ''embedding'' \<longrightarrow>
            finetune_train_per_m_tokens (pricing e) = finetune_input_per_m_tokens (pricing e)"
          and raw = raw and s = s and key = key])
      show "main_run raw = Inr s" and "(key, e') \<in> set (catalog s)"
        using a by simp_all
      fix k0 v0 p0 e0
      assume "convert_entry k0 v0 p0 = Inr (Some e0)"
      then show "mode e0 \<noteq> ''embedding'' \<longrightarrow>
          finetune_train_per_m_tokens (pricing e0) = finetune_input_per_m_tokens (pricing e0)"
        by (rule eq)
    qed
    with a show "finetune_train_per_m_tokens (pricing e')
        = finetune_input_per_m_tokens (pricing e')"
      by simp
  qed
qed

theorem finetune_train_eq_input_witness:
  "convert_entry ''ft:gpt-4o''
     (openai_chat [(''ft_input_cost_per_token'', JInt 2),
                   (''ft_output_cost_per_token'', JInt 5)]) ''openai''
   = Inr (Some ((plain_entry ''openai'' ''ft:gpt-4o'')
        \<lparr>pricing := null_pricing\<lparr>finetune_train_per_m_tokens := JInt 2000000,
                                  finetune_input_per_m_tokens := JInt 2000000,
                                  finetune_output_per_m_tokens := JInt 5000000\<rparr>,
         capabilities := no_caps\<lparr>finetuneable := True\<rparr>\<rparr>))
   \<and> main_run [(''ft:gpt-4o'',
                 JObj (openai_chat [(''ft_input_cost_per_token'', JInt 2),
                                    (''ft_output_cost_per_token'', JInt 5)]))]
   = Inr \<lparr>catalog = [(''openai/ft:gpt-4o'', (plain_entry ''openai'' ''ft:gpt-4o'')
        \<lparr>pricing := null_pricing\<lparr>finetune_train_per_m_tokens := JInt 2000000,
                                  finetune_input_per_m_tokens := JInt 2000000,
                                  finetune_output_per_m_tokens := JInt 5000000\<rparr>,
         capabilities := no_caps\<lparr>finetuneable := True\<rparr>\<rparr>)],
          skipped_spec = 0, skipped_mode = 0, skipped_no_provider = 0,
          duplicates = 0, written = 1\<rparr>
   \<and> mode (plain_entry ''openai'' ''ft:gpt-4o'') \<noteq> ''embedding''
   \<and> per_m (JInt 2) = Inr (JInt 2000000)"
proof -
  let ?v = "openai_chat [(''ft_input_cost_per_token'', JInt 2),
      (''ft_output_cost_per_token'', JInt 5)]"
  let ?e = "(plain_entry ''openai'' ''ft:gpt-4o'')
        \<lparr>pricing := null_pricing\<lparr>finetune_train_per_m_tokens := JInt 2000000,
                                  finetune_input_per_m_tokens := JInt 2000000,
                                  finetune_output_per_m_tokens := JInt 5000000\<rparr>,
         capabilities := no_caps\<lparr>finetuneable := True\<rparr>\<rparr>"
  let ?s = "\<lparr>catalog = [(''openai/ft:gpt-4o'', ?e)],
      skipped_spec = 0, skipped_mode = 0, skipped_no_provider = 0,
      duplicates = 0, written = 1\<rparr>"
  have ev: "convert_entry ''ft:gpt-4o'' ?v ''openai'' = Inr (Some ?e)"
    by (simp add: eval_defs)
  have run: "main_run [(''ft:gpt-4o'', JObj ?v)] = Inr ?s"
    by (simp add: main_eval eval_defs)
  have m: "mode ?e \<noteq> ''embedding''"
    by (simp add: plain_entry_def)
  have mem: "(''openai/ft:gpt-4o'', ?e) \<in> set (catalog ?s)"
    by simp
  have g: "get ?v ''ft_input_cost_per_token'' = JInt 2"
    by (simp add: eval_defs)
  from finetune_train_eq_input
    [of "''ft:gpt-4o''" ?v "''openai''" ?e "[(''ft:gpt-4o'', JObj ?v)]" ?s
      "''openai/ft:gpt-4o''" ?e]
    ev run m mem g
  show ?thesis
    by (simp add: plain_entry_def null_pricing_def)
qed

section \<open>The written counter\<close>

text \<open>
  C10. At the end of every run the \<open>written\<close> counter is the number of distinct keys of
  the catalog (and no key occurs twice): storing an entry under a new key adds one
  to it, storing under a key the catalog already has leaves it as it is.
\<close>

theorem written_counts_keys:
  "(main_run raw = Inr s \<longrightarrow>
      written s = card (fst ` set (catalog s)) \<and> written s = length (catalog s)
      \<and> distinct (map fst (catalog s)))
   \<and> (map_of (catalog s0) key = None \<longrightarrow>
        written (store_entry key e s0) = written s0 + 1)
   \<and> (map_of (catalog s0) key \<noteq> None \<longrightarrow>
        written (store_entry key e s0) = written s0)"
proof (intro conjI impI)
  assume run: "main_run raw = Inr s"
  have init: "written init_state = length (catalog init_state)
      \<and> distinct (map fst (catalog init_state))"
    by (simp add: init_state_def)
  have inv: "written s = length (catalog s) \<and> distinct (map fst (catalog s))"
  proof (rule main_loop_preserves
      [where P = "\<lambda>s. written s = length (catalog s) \<and> distinct (map fst (catalog s))"])
    show "main_loop raw init_state = Inr s"
      using run by (simp add: main_run_def)
    show "written init_state = length (catalog init_state)
        \<and> distinct (map fst (catalog init_state))"
      by (rule init)
    fix kv s1 s2
    assume "main_step kv s1 = Inr s2"
      and "written s1 = length (catalog s1) \<and> distinct (map fst (catalog s1))"
    then show "written s2 = length (catalog s2) \<and> distinct (map fst (catalog s2))"
      by (rule main_step_written)
  qed
  then show "written s = length (catalog s)" and "distinct (map fst (catalog s))"
    by simp_all
  have "card (fst ` set (catalog s)) = card (set (map fst (catalog s)))"
    by simp
  also have "\<dots> = length (map fst (catalog s))"
    using inv by (simp only: distinct_card)
  finally show "written s = card (fst ` set (catalog s))"
    using inv by simp
next
  assume "map_of (catalog s0) key = None"
  then show "written (store_entry key e s0) = written s0 + 1"
    by (simp add: store_entry_new)
next
  assume "map_of (catalog s0) key \<noteq> None"
  then obtain old where "map_of (catalog s0) key = Some old" by auto
  then show "written (store_entry key e s0) = written s0"
    by (simp add: store_entry_dup)
qed

theorem written_counts_keys_witness:
  "main_run (foo_twice [] [(''input_cost_per_token'', JInt 1)])
   = Inr \<lparr>catalog = [(''openai/foo'', priced (plain_entry ''openai'' ''foo'')
                         (null_pricing\<lparr>input_per_m_tokens := JInt 1000000\<rparr>))],
          skipped_spec = 0, skipped_mode = 0, skipped_no_provider = 0,
          duplicates = 1, written = 1\<rparr>
   \<and> card (fst ` set [(''openai/foo'', priced (plain_entry ''openai'' ''foo'')
                         (null_pricing\<lparr>input_per_m_tokens := JInt 1000000\<rparr>))]) = 1
   \<and> written (store_entry ''openai/foo'' (plain_entry ''openai'' ''foo'') init_state) = 1
   \<and> written (store_entry ''openai/foo'' (plain_entry ''openai'' ''foo'')
        (store_entry ''openai/foo'' (plain_entry ''openai'' ''foo'') init_state)) = 1"
proof -
  have ev: "main_run (foo_twice [] [(''input_cost_per_token'', JInt 1)])
   = Inr \<lparr>catalog = [(''openai/foo'', priced (plain_entry ''openai'' ''foo'')
                         (null_pricing\<lparr>input_per_m_tokens := JInt 1000000\<rparr>))],
          skipped_spec = 0, skipped_mode = 0, skipped_no_provider = 0,
          duplicates = 1, written = 1\<rparr>"
    by (simp add: main_eval eval_defs)
  have n: "map_of (catalog init_state) ''openai/foo'' = None"
    by (simp add: init_state_def)
  have d: "map_of (catalog (store_entry ''openai/foo'' (plain_entry ''openai'' ''foo'')
      init_state)) ''openai/foo'' \<noteq> None"
    by (simp add: init_state_def store_entry_def)
  have w0: "written init_state = 0"
    by (simp add: init_state_def)
  from written_counts_keys [of "foo_twice [] [(''input_cost_per_token'', JInt 1)]"
      _ init_state "''openai/foo''" "plain_entry ''openai'' ''foo''"]
    written_counts_keys [of "[]" init_state
      "store_entry ''openai/foo'' (plain_entry ''openai'' ''foo'') init_state"
      "''openai/foo''" "plain_entry ''openai'' ''foo''"]
    ev n d w0
  show ?thesis by simp
qed

end
